theory Spec2Isabelle
  imports Main
begin

section \<open>Failure signals and exceptions\<close>

text \<open>
  The self-test harness (\<^verbatim>\<open>src/unnamed/part_002\<close>, lines 1--520) raises two kinds of
  exception: a \<^verbatim>\<open>TestFailure(reason, details)\<close>, and a plain JavaScript \<^verbatim>\<open>Error\<close>.
  \<^verbatim>\<open>TestFailure\<close> is not exported, so the only failures that exist are the ones the
  harness constructs itself; each constructor below is one \<^verbatim>\<open>new TestFailure(...)\<close> of
  the source, with the details it is given there.
\<close>

record exit_info =
  code :: "int option"       \<comment> \<open>\<^verbatim>\<open>null\<close> when the child was killed by a signal\<close>
  signal :: "string option"  \<comment> \<open>\<^verbatim>\<open>null\<close> when the child exited by itself\<close>

datatype test_failure =
    MatchTimeout
  | NoMatch string               \<comment> \<open>details: \<^verbatim>\<open>{ output: self.output }\<close>\<close>
  | JunkBefore
  | JunkAtEnd
  | ExitTimeout
  | SpawnFailure
  | WrongExitCode int exit_info  \<comment> \<open>details: expected code, actual exit status\<close>

datatype exn =
    TestFailure test_failure
  | Error string                 \<comment> \<open>any exception that is not \<^verbatim>\<open>instanceof TestFailure\<close>\<close>

fun isTestFailure :: "exn \<Rightarrow> bool" where
  "isTestFailure (TestFailure _) = True"
| "isTestFailure (Error _) = False"

fun reason :: "test_failure \<Rightarrow> string" where
  "reason MatchTimeout = ''match-timeout''"
| "reason (NoMatch _) = ''no-match''"
| "reason JunkBefore = ''junk-before''"
| "reason JunkAtEnd = ''junk-at-end''"
| "reason ExitTimeout = ''exit-timeout''"
| "reason SpawnFailure = ''spawn-failure''"
| "reason (WrongExitCode _ _) = ''wrong-exit-code''"

section \<open>Futures\<close>

text \<open>
  The harness blocks on \<^verbatim>\<open>Future\<close> objects of the \<^verbatim>\<open>fibers\<close> package. A future is a
  one-shot cell: \<^verbatim>\<open>f.return(v)\<close> and \<^verbatim>\<open>f.throw(e)\<close> resolve it, and either of them, called
  on a future that is already resolved, raises \<^verbatim>\<open>Error('Future resolved more than once')\<close>
  and leaves the cell as it was. \<^verbatim>\<open>f.wait()\<close> yields the calling fiber until the future
  is resolved, then returns its value or rethrows its error.

  Futures are shared between the object that registers them, the timer closure and the
  waiting caller, so they live in an explicit store and are named by their index.
\<close>

text \<open>
  The array \<^verbatim>\<open>String.prototype.match\<close> returns. For a regular expression without the
  \<^verbatim>\<open>g\<close> flag it has the offset of the match in \<^verbatim>\<open>m.index\<close> and the capture groups after
  \<^verbatim>\<open>m[0]\<close>. With the \<^verbatim>\<open>g\<close> flag it lists all the matches and has no \<^verbatim>\<open>index\<close> property:
  \<^verbatim>\<open>m.index\<close> is \<^verbatim>\<open>undefined\<close> (\<open>None\<close>).
\<close>

record regexp_match =
  index :: "nat option"   \<comment> \<open>\<^verbatim>\<open>m.index\<close>\<close>
  matched :: string       \<comment> \<open>\<^verbatim>\<open>m[0]\<close>\<close>
  others :: "string list" \<comment> \<open>\<^verbatim>\<open>m[1..]\<close>\<close>

datatype jsval =
    MatchArray regexp_match  \<comment> \<open>what \<^verbatim>\<open>String.prototype.match\<close> returned\<close>
  | StringVal string
  | Undefined

datatype fstate = Unresolved | Returned jsval | Thrown exn

type_synonym fref = nat
type_synonym heap = "fstate list"

definition resolved :: "heap \<Rightarrow> fref \<Rightarrow> bool" where
  "resolved h f = (\<not> (f < length h \<and> h ! f = Unresolved))"

definition Future_new :: "heap \<Rightarrow> fref \<times> heap" where
  "Future_new h = (length h, h @ [Unresolved])"

definition Future_return :: "heap \<Rightarrow> fref \<Rightarrow> jsval \<Rightarrow> exn + heap" where
  "Future_return h f v =
     (if resolved h f then Inl (Error ''Future resolved more than once'')
      else Inr (h[f := Returned v]))"

definition Future_throw :: "heap \<Rightarrow> fref \<Rightarrow> exn \<Rightarrow> exn + heap" where
  "Future_throw h f e =
     (if resolved h f then Inl (Error ''Future resolved more than once'')
      else Inr (h[f := Thrown e]))"

text \<open>
  How a call ends: it returns, it raises, or it is suspended inside \<^verbatim>\<open>f.wait()\<close> with
  the timer it has armed (in milliseconds, if any). A suspended call is resumed by the
  event that resolves its future.
\<close>

datatype 'a completion =
    Normal 'a
  | Raise exn
  | Suspended fref "int option"

definition Future_wait :: "heap \<Rightarrow> fref \<Rightarrow> int option \<Rightarrow> jsval completion" where
  "Future_wait h f timer =
     (if f < length h then
        (case h ! f of
           Returned v \<Rightarrow> Normal v
         | Thrown e \<Rightarrow> Raise e
         | Unresolved \<Rightarrow> Suspended f timer)
      else Suspended f timer)"

section \<open>Stream Matcher\<close>

text \<open>
  A pattern is a regular expression or a string. The regular expression engine is not
  part of the harness: a \<^verbatim>\<open>RegExp\<close> is given by what \<^verbatim>\<open>buf.match(re)\<close> returns on each
  buffer (\<^verbatim>\<open>null\<close> is \<open>None\<close>).
\<close>

datatype pattern =
    RegExp "string \<Rightarrow> regexp_match option"
  | Str string

record matcher =
  buf :: string
  totalOutput :: string   \<comment> \<open>\<^verbatim>\<open>self.output\<close>\<close>
  ended :: bool
  matchPattern :: "pattern option"
  matchFuture :: "fref option"
  matchStrict :: "bool option"

definition Matcher_new :: matcher where
  "Matcher_new = \<lparr> buf = [], totalOutput = [], ended = False,
                   matchPattern = None, matchFuture = None, matchStrict = None \<rparr>"

text \<open>
  \<^verbatim>\<open>String.prototype.indexOf\<close>: the least offset at which the pattern occurs in the
  buffer; \<open>None\<close> is JavaScript's \<^verbatim>\<open>-1\<close>.
\<close>

fun indexOf :: "string \<Rightarrow> string \<Rightarrow> nat option" where
  "indexOf [] p = (if p = [] then Some 0 else None)"
| "indexOf (c # cs) p =
     (if take (length p) (c # cs) = p then Some 0 else map_option Suc (indexOf cs p))"

definition truthy :: "bool option \<Rightarrow> bool" where
  "truthy b = (b = Some True)"

definition clearRequest :: "matcher \<Rightarrow> matcher" where
  "clearRequest self = self\<lparr> matchFuture := None, matchStrict := None, matchPattern := None \<rparr>"

text \<open>
  Lines 89--107 of \<^verbatim>\<open>_tryMatch\<close>: look for the pattern; the result is the exception raised
  there (if any), \<^verbatim>\<open>ret\<close>, and the matcher and the futures as they are then. On a strict
  request whose match does not start at offset 0 the future is thrown \<^verbatim>\<open>junk-before\<close>, and
  control falls through: \<^verbatim>\<open>ret\<close> is set and the buffer is sliced all the same. A \<^verbatim>\<open>null\<close>
  pattern is what JavaScript makes of it: \<^verbatim>\<open>indexOf(null)\<close> searches for the text
  \<^verbatim>\<open>null\<close>, and when that is found, reading \<^verbatim>\<open>self.matchPattern.length\<close> raises a
  \<^verbatim>\<open>TypeError\<close>.

  The offset is \<open>None\<close> where \<^verbatim>\<open>m.index\<close> is \<^verbatim>\<open>undefined\<close>. Then \<^verbatim>\<open>m.index !== 0\<close> is true,
  so a strict request is thrown \<^verbatim>\<open>junk-before\<close> wherever the match is, and
  \<^verbatim>\<open>m.index + m[0].length\<close> is \<^verbatim>\<open>NaN\<close>, which \<^verbatim>\<open>slice\<close> takes as 0: the buffer stays whole.
\<close>

definition junkCheck :: "matcher \<Rightarrow> heap \<Rightarrow> fref \<Rightarrow> nat option \<Rightarrow> exn + heap" where
  "junkCheck self h f i =
     (if truthy (matchStrict self) \<and> i \<noteq> Some 0
      then Future_throw h f (TestFailure JunkBefore)
      else Inr h)"

definition sliceAfter :: "nat option \<Rightarrow> nat \<Rightarrow> string \<Rightarrow> string" where
  "sliceAfter i n b = (case i of Some k \<Rightarrow> drop (k + n) b | None \<Rightarrow> b)"

definition search ::
    "matcher \<Rightarrow> heap \<Rightarrow> fref \<Rightarrow> exn option \<times> jsval option \<times> matcher \<times> heap" where
  "search self h f =
     (case matchPattern self of
        Some (RegExp re) \<Rightarrow>
          (case re (buf self) of
             Some m \<Rightarrow>
               (case junkCheck self h f (index m) of
                  Inl e \<Rightarrow> (Some e, None, self, h)
                | Inr h' \<Rightarrow>
                    (None, Some (MatchArray m),
                     self\<lparr> buf := sliceAfter (index m) (length (matched m)) (buf self) \<rparr>,
                     h'))
           | None \<Rightarrow> (None, None, self, h))
      | Some (Str p) \<Rightarrow>
          (case indexOf (buf self) p of
             Some i \<Rightarrow>
               (case junkCheck self h f (Some i) of
                  Inl e \<Rightarrow> (Some e, None, self, h)
                | Inr h' \<Rightarrow>
                    (None, Some (StringVal p),
                     self\<lparr> buf := drop (i + length p) (buf self) \<rparr>, h'))
           | None \<Rightarrow> (None, None, self, h))
      | None \<Rightarrow>
          (case indexOf (buf self) ''null'' of
             Some i \<Rightarrow>
               (case junkCheck self h f (Some i) of
                  Inl e \<Rightarrow> (Some e, None, self, h)
                | Inr h' \<Rightarrow>
                    (Some (Error ''TypeError: Cannot read property length of null''),
                     None, self, h'))
           | None \<Rightarrow> (None, None, self, h)))"

text \<open>
  \<^verbatim>\<open>_tryMatch\<close>. With \<^verbatim>\<open>ret\<close> set, the request is cleared and the future is returned
  \<^verbatim>\<open>ret\<close>, whether or not it has just been thrown \<^verbatim>\<open>junk-before\<close>.
\<close>

definition tryMatch :: "matcher \<Rightarrow> heap \<Rightarrow> unit completion \<times> matcher \<times> heap" where
  "tryMatch self h =
     (case matchFuture self of
        None \<Rightarrow> (Normal (), self, h)
      | Some f \<Rightarrow>
          (case search self h f of
             (Some e, _, self1, h1) \<Rightarrow> (Raise e, self1, h1)
           | (None, Some ret, self1, h1) \<Rightarrow>
               (let self2 = clearRequest self1 in
                case Future_return h1 f ret of
                  Inl e \<Rightarrow> (Raise e, self2, h1)
                | Inr h2 \<Rightarrow> (Normal (), self2, h2))
           | (None, None, self1, h1) \<Rightarrow>
               (if ended self1 then
                  (let self2 = clearRequest self1 in
                   case Future_throw h1 f (TestFailure (NoMatch (totalOutput self2))) of
                     Inl e \<Rightarrow> (Raise e, self2, h1)
                   | Inr h2 \<Rightarrow> (Normal (), self2, h2))
                else (Normal (), self1, h1))))"

definition Matcher_write :: "matcher \<Rightarrow> heap \<Rightarrow> string \<Rightarrow> unit completion \<times> matcher \<times> heap" where
  "Matcher_write self h data =
     tryMatch (self\<lparr> buf := buf self @ data, totalOutput := totalOutput self @ data \<rparr>) h"

text \<open>
  \<^verbatim>\<open>match\<close>: an exception of \<^verbatim>\<open>_tryMatch\<close> leaves the call before the timer is set and
  before \<^verbatim>\<open>f.wait()\<close>. The timer is armed only for a truthy timeout, and it is cleared
  when the wait ends.
\<close>

definition Matcher_match ::
    "matcher \<Rightarrow> heap \<Rightarrow> pattern \<Rightarrow> int \<Rightarrow> bool \<Rightarrow> jsval completion \<times> matcher \<times> heap" where
  "Matcher_match self h pat timeout strict =
     (if matchFuture self \<noteq> None
      then (Raise (Error ''already have a match pending?''), self, h)
      else
        (let (f, h1) = Future_new h;
             self1 = self\<lparr> matchPattern := Some pat, matchStrict := Some strict,
                           matchFuture := Some f \<rparr>
         in case tryMatch self1 h1 of
              (Raise e, self2, h2) \<Rightarrow> (Raise e, self2, h2)
            | (_, self2, h2) \<Rightarrow>
                (Future_wait h2 f (if timeout \<noteq> 0 then Some (timeout * 1000) else None),
                 self2, h2)))"

text \<open>The timer callback of \<^verbatim>\<open>match\<close> (lines 53--58), for the future \<open>f\<close> it closes over.\<close>

definition Matcher_match_timeout :: "matcher \<Rightarrow> heap \<Rightarrow> fref \<Rightarrow> unit completion \<times> matcher \<times> heap" where
  "Matcher_match_timeout self h f =
     (let self1 = clearRequest self in
      case Future_throw h f (TestFailure MatchTimeout) of
        Inl e \<Rightarrow> (Raise e, self1, h)
      | Inr h1 \<Rightarrow> (Normal (), self1, h1))"

definition Matcher_end :: "matcher \<Rightarrow> heap \<Rightarrow> unit completion \<times> matcher \<times> heap" where
  "Matcher_end self h = tryMatch (self\<lparr> ended := True \<rparr>) h"

definition matchEmpty :: "matcher \<Rightarrow> unit completion" where
  "matchEmpty self = (if length (buf self) > 0 then Raise (TestFailure JunkAtEnd) else Normal ())"

text \<open>
  The earliest occurrence of a literal pattern in a buffer: the pattern occurs at
  offset \<open>k\<close> and at no smaller offset.
\<close>

definition occursAt :: "string \<Rightarrow> string \<Rightarrow> nat \<Rightarrow> bool" where
  "occursAt p b k = (k + length p \<le> length b \<and> take (length p) (drop k b) = p)"

definition earliestAt :: "string \<Rightarrow> string \<Rightarrow> nat \<Rightarrow> bool" where
  "earliestAt p b k = (occursAt p b k \<and> (\<forall>j < k. \<not> occursAt p b j))"

text \<open>
  The earliest match of a pattern of either kind: offset \<open>k\<close>, length \<open>n\<close>. For a regular
  expression it is the match the engine reports, when it reports the offset (no \<^verbatim>\<open>g\<close>
  flag).
\<close>

fun earliestMatch :: "pattern \<Rightarrow> string \<Rightarrow> nat \<Rightarrow> nat \<Rightarrow> bool" where
  "earliestMatch (Str p) b k n = (earliestAt p b k \<and> n = length p)"
| "earliestMatch (RegExp re) b k n =
     (case re b of
        Some m \<Rightarrow> index m = Some k \<and> length (matched m) = n
      | None \<Rightarrow> False)"

fun matchValue :: "pattern \<Rightarrow> string \<Rightarrow> jsval" where
  "matchValue (Str p) b = StringVal p"
| "matchValue (RegExp re) b = (case re b of Some m \<Rightarrow> MatchArray m | None \<Rightarrow> Undefined)"


section \<open>Process Session\<close>

text \<open>
  \<^verbatim>\<open>exitStatus\<close> is \<^verbatim>\<open>undefined\<close> until the child is gone, then \<^verbatim>\<open>null\<close> ("failed rather
  than exited") or \<^verbatim>\<open>{ code, signal }\<close>. The child process handle is modelled by the
  argument vector it was spawned with; seconds are integers.
\<close>

datatype exit_status = Unset | FailedToSpawn | Exited exit_info

datatype arg = Plain string | Options "(string \<times> string) list"

record run =
  sandbox :: string                 \<comment> \<open>\<^verbatim>\<open>self.sandbox.root\<close>\<close>
  argv :: "string list"             \<comment> \<open>\<^verbatim>\<open>self._args\<close>\<close>
  proc :: "string list option"
  baseTimeout :: int
  extraTime :: int
  stdoutMatcher :: matcher
  stderrMatcher :: matcher
  exitStatus :: exit_status
  exitFutures :: "fref list option" \<comment> \<open>\<^verbatim>\<open>null\<close> once the child has exited\<close>

fun argStrings :: "arg \<Rightarrow> string list" where
  "argStrings (Plain a) = [a]"
| "argStrings (Options kvs) = concat (map (\<lambda>(k, v). [''--'' @ k, v]) kvs)"

definition Run_args :: "run \<Rightarrow> arg list \<Rightarrow> exn + run" where
  "Run_args self as =
     (if proc self \<noteq> None then Inl (Error ''already started?'')
      else Inr (self\<lparr> argv := argv self @ concat (map argStrings as) \<rparr>))"

text \<open>
  The constructor, as \<^verbatim>\<open>Sandbox.run\<close> calls it (with a sandbox, so the check of line 152
  passes): the fields as lines 154--165 set them, then \<^verbatim>\<open>self.args(...)\<close>.
\<close>

definition Run_init :: "string \<Rightarrow> run" where
  "Run_init root =
     \<lparr> sandbox = root, argv = [], proc = None, baseTimeout = 1, extraTime = 0,
       stdoutMatcher = Matcher_new, stderrMatcher = Matcher_new,
       exitStatus = Unset, exitFutures = Some [] \<rparr>"

definition Run_new :: "string \<Rightarrow> arg list \<Rightarrow> exn + run" where
  "Run_new root as = Run_args (Run_init root) as"

text \<open>\<^verbatim>\<open>_.each(exitFutures, function (f) { f['return'](); })\<close>: stops at the first exception.\<close>

fun returnAll :: "heap \<Rightarrow> fref list \<Rightarrow> exn option \<times> heap" where
  "returnAll h [] = (None, h)"
| "returnAll h (f # fs) =
     (case Future_return h f Undefined of
        Inl e \<Rightarrow> (Some e, h)
      | Inr h1 \<Rightarrow> returnAll h1 fs)"

text \<open>
  \<^verbatim>\<open>_exited(status)\<close>: the status is stored and the list of waiters is taken before the
  waiters are returned and the matchers ended, so an exception on the way leaves the
  status set.
\<close>

definition exited :: "run \<Rightarrow> heap \<Rightarrow> exit_status \<Rightarrow> unit completion \<times> run \<times> heap" where
  "exited self h status =
     (if exitStatus self \<noteq> Unset then (Raise (Error ''already exited?''), self, h)
      else
        (let waiters = (case exitFutures self of None \<Rightarrow> [] | Some fs \<Rightarrow> fs);
             self1 = self\<lparr> exitStatus := status, exitFutures := None \<rparr>
         in case returnAll h waiters of
              (Some e, h1) \<Rightarrow> (Raise e, self1, h1)
            | (None, h1) \<Rightarrow>
                (case Matcher_end (stdoutMatcher self1) h1 of
                   (Raise e, m1, h2) \<Rightarrow> (Raise e, self1\<lparr> stdoutMatcher := m1 \<rparr>, h2)
                 | (_, m1, h2) \<Rightarrow>
                     (case Matcher_end (stderrMatcher self1) h2 of
                        (c, m2, h3) \<Rightarrow>
                          (c, self1\<lparr> stdoutMatcher := m1, stderrMatcher := m2 \<rparr>, h3)))))"

text \<open>\<^verbatim>\<open>_ensureStarted\<close>: spawn the child unless there is one.\<close>

definition ensureStarted :: "run \<Rightarrow> run" where
  "ensureStarted self = (if proc self \<noteq> None then self else self\<lparr> proc := Some (argv self) \<rparr>)"

text \<open>
  The handlers \<^verbatim>\<open>_ensureStarted\<close> installs. Both exit handlers listen to \<^verbatim>\<open>'close'\<close> and
  run in the order they were added; a listener that raises ends the emit.
\<close>

definition on_close :: "run \<Rightarrow> heap \<Rightarrow> int option \<Rightarrow> string option \<Rightarrow> unit completion \<times> run \<times> heap" where
  "on_close self h c s =
     (case (if exitStatus self = Unset
            then exited self h (Exited \<lparr> code = c, signal = s \<rparr>)
            else (Normal (), self, h)) of
        (Raise e, self1, h1) \<Rightarrow> (Raise e, self1, h1)
      | (_, self1, h1) \<Rightarrow>
          (if exitStatus self1 = Unset then exited self1 h1 FailedToSpawn
           else (Normal (), self1, h1)))"

definition on_stdout_data :: "run \<Rightarrow> heap \<Rightarrow> string \<Rightarrow> unit completion \<times> run \<times> heap" where
  "on_stdout_data self h data =
     (case Matcher_write (stdoutMatcher self) h data of
        (c, m, h1) \<Rightarrow> (c, self\<lparr> stdoutMatcher := m \<rparr>, h1))"

definition on_stderr_data :: "run \<Rightarrow> heap \<Rightarrow> string \<Rightarrow> unit completion \<times> run \<times> heap" where
  "on_stderr_data self h data =
     (case Matcher_write (stderrMatcher self) h data of
        (c, m, h1) \<Rightarrow> (c, self\<lparr> stderrMatcher := m \<rparr>, h1))"

definition Run_match :: "run \<Rightarrow> heap \<Rightarrow> pattern \<Rightarrow> bool \<Rightarrow> jsval completion \<times> run \<times> heap" where
  "Run_match self h pat strict =
     (let self1 = ensureStarted self;
          timeout = baseTimeout self1 + extraTime self1;
          self2 = self1\<lparr> extraTime := 0 \<rparr>
      in case Matcher_match (stdoutMatcher self2) h pat timeout strict of
           (c, m, h1) \<Rightarrow> (c, self2\<lparr> stdoutMatcher := m \<rparr>, h1))"

definition Run_matchErr :: "run \<Rightarrow> heap \<Rightarrow> pattern \<Rightarrow> bool \<Rightarrow> jsval completion \<times> run \<times> heap" where
  "Run_matchErr self h pat strict =
     (let self1 = ensureStarted self;
          timeout = baseTimeout self1 + extraTime self1;
          self2 = self1\<lparr> extraTime := 0 \<rparr>
      in case Matcher_match (stderrMatcher self2) h pat timeout strict of
           (c, m, h1) \<Rightarrow> (c, self2\<lparr> stderrMatcher := m \<rparr>, h1))"

definition Run_read :: "run \<Rightarrow> heap \<Rightarrow> pattern \<Rightarrow> jsval completion \<times> run \<times> heap" where
  "Run_read self h pat = Run_match self h pat True"

definition Run_readErr :: "run \<Rightarrow> heap \<Rightarrow> pattern \<Rightarrow> jsval completion \<times> run \<times> heap" where
  "Run_readErr self h pat = Run_matchErr self h pat True"

text \<open>
  Lines 331--338 of \<^verbatim>\<open>expectExit\<close>, run once the exit status is known. The expected code
  is \<open>None\<close> when the argument is left out (\<^verbatim>\<open>undefined\<close>).
\<close>

definition checkExit :: "run \<Rightarrow> int option \<Rightarrow> unit completion" where
  "checkExit self expected =
     (case exitStatus self of
        Unset \<Rightarrow> Raise (TestFailure SpawnFailure)
      | FailedToSpawn \<Rightarrow> Raise (TestFailure SpawnFailure)
      | Exited st \<Rightarrow>
          (case expected of
             None \<Rightarrow> Normal ()
           | Some c \<Rightarrow>
               (if code st \<noteq> Some c then Raise (TestFailure (WrongExitCode c st))
                else Normal ())))"

text \<open>
  \<^verbatim>\<open>expectExit\<close> up to \<^verbatim>\<open>fut.wait()\<close>. A fresh future is unresolved, so the call is
  suspended whenever it has to wait; \<open>expectExit_resume\<close> is the rest of the call.
\<close>

definition expectExit :: "run \<Rightarrow> heap \<Rightarrow> int option \<Rightarrow> unit completion \<times> run \<times> heap" where
  "expectExit self h expected =
     (let self1 = ensureStarted self in
      if exitStatus self1 = Unset then
        (let timeout = baseTimeout self1 + extraTime self1;
             self2 = self1\<lparr> extraTime := 0 \<rparr>;
             (fut, h1) = Future_new h
         in case exitFutures self2 of
              None \<Rightarrow> (Raise (Error ''TypeError: Cannot call method push of null''), self2, h1)
            | Some fs \<Rightarrow>
                (Suspended fut (Some (timeout * 1000)),
                 self2\<lparr> exitFutures := Some (fs @ [fut]) \<rparr>, h1))
      else (checkExit self1 expected, self1, h))"

definition expectExit_resume :: "run \<Rightarrow> heap \<Rightarrow> fref \<Rightarrow> int option \<Rightarrow> unit completion" where
  "expectExit_resume self h fut expected =
     (case Future_wait h fut None of
        Normal _ \<Rightarrow> checkExit self expected
      | Raise e \<Rightarrow> Raise e
      | Suspended f' t \<Rightarrow> Suspended f' t)"

text \<open>The timer callback of \<^verbatim>\<open>expectExit\<close> (lines 320--322).\<close>

definition expectExit_timeout :: "heap \<Rightarrow> fref \<Rightarrow> unit completion \<times> heap" where
  "expectExit_timeout h fut =
     (case Future_throw h fut (TestFailure ExitTimeout) of
        Inl e \<Rightarrow> (Raise e, h)
      | Inr h1 \<Rightarrow> (Normal (), h1))"

definition expectEnd_rest :: "run \<Rightarrow> unit completion" where
  "expectEnd_rest self =
     (case matchEmpty (stdoutMatcher self) of
        Normal _ \<Rightarrow> matchEmpty (stderrMatcher self)
      | other \<Rightarrow> other)"

text \<open>
  \<^verbatim>\<open>expectEnd\<close>: the local \<^verbatim>\<open>timeout\<close> is computed and never used; \<^verbatim>\<open>expectExit()\<close> is
  called after \<^verbatim>\<open>extraTime\<close> has been reset.
\<close>

definition expectEnd :: "run \<Rightarrow> heap \<Rightarrow> unit completion \<times> run \<times> heap" where
  "expectEnd self h =
     (let self1 = ensureStarted self;
          timeout = baseTimeout self1 + extraTime self1;
          self2 = self1\<lparr> extraTime := 0 \<rparr>
      in case expectExit self2 h None of
           (Normal _, self3, h1) \<Rightarrow> (expectEnd_rest self3, self3, h1)
         | other \<Rightarrow> other)"

definition waitSecs :: "run \<Rightarrow> int \<Rightarrow> run" where
  "waitSecs self secs = self\<lparr> extraTime := extraTime self + secs \<rparr>"

section \<open>Test registry and loader\<close>

text \<open>
  The Runner sees of a test function only how its call ends: it returns (\<open>None\<close>) or it
  throws. \<^verbatim>\<open>self.file\<close> and \<^verbatim>\<open>self.fileHash\<close> are copies of the loader's globals, which are \<^verbatim>\<open>null\<close>
  outside a load.
\<close>

type_synonym body = "exn option"

record test =
  name :: string
  testFile :: "string option"   \<comment> \<open>\<^verbatim>\<open>self.file\<close>\<close>
  fileHash :: "string option"
  func :: body

record loader =
  allTests :: "test list option"
  fileBeingLoaded :: "string option"
  fileBeingLoadedHash :: "string option"

definition loader_init :: loader where
  "loader_init = \<lparr> allTests = None, fileBeingLoaded = None, fileBeingLoadedHash = None \<rparr>"

text \<open>
  \<^verbatim>\<open>define\<close> (here \<open>define_test\<close>) has a single statement, \<^verbatim>\<open>allTests.push(new Test(...))\<close>; it raises only
  the \<^verbatim>\<open>TypeError\<close> of calling \<^verbatim>\<open>push\<close> on \<^verbatim>\<open>null\<close>.
\<close>

definition define_test :: "loader \<Rightarrow> string \<Rightarrow> body \<Rightarrow> unit completion \<times> loader" where
  "define_test ld nm fn =
     (case allTests ld of
        None \<Rightarrow> (Raise (Error ''TypeError: Cannot call method push of null''), ld)
      | Some ts \<Rightarrow>
          (Normal (),
           ld\<lparr> allTests := Some (ts @ [\<lparr> name = nm, testFile = fileBeingLoaded ld,
                                          fileHash = fileBeingLoadedHash ld, func = fn \<rparr>]) \<rparr>))"

text \<open>
  A file of the \<^verbatim>\<open>selftests\<close> directory: its name, its contents, and the calls of
  \<^verbatim>\<open>define\<close> its module makes when it is required.
\<close>

record test_file =
  fileName :: string
  contents :: string
  defineCalls :: "(string \<times> body) list"

text \<open>
  \<^verbatim>\<open>/^[^.].*\.js$/\<close>: a first character other than a dot, then any characters but line
  terminators, then \<^verbatim>\<open>.js\<close> at the very end.
\<close>

definition isTestFileName :: "string \<Rightarrow> bool" where
  "isTestFileName n =
     (case n of
        [] \<Rightarrow> False
      | c # rest \<Rightarrow>
          c \<noteq> CHR ''.'' \<and> 3 \<le> length rest \<and> drop (length rest - 3) rest = ''.js'' \<and>
          (\<forall>x \<in> set (take (length rest - 3) rest). x \<noteq> CHR 0x0A \<and> x \<noteq> CHR 0x0D))"

text \<open>\<^verbatim>\<open>path.basename(n, '.js')\<close> for a directory entry \<open>n\<close> that ends in \<^verbatim>\<open>.js\<close>.\<close>

definition basename :: "string \<Rightarrow> string" where
  "basename n = take (length n - 3) n"

fun runDefines :: "loader \<Rightarrow> (string \<times> body) list \<Rightarrow> unit completion \<times> loader" where
  "runDefines ld [] = (Normal (), ld)"
| "runDefines ld ((nm, fn) # ds) =
     (case define_test ld nm fn of
        (Normal _, ld1) \<Rightarrow> runDefines ld1 ds
      | other \<Rightarrow> other)"

text \<open>
  One round of the loop in \<^verbatim>\<open>getAllTests\<close> (lines 375--393); the \<^verbatim>\<open>finally\<close> clause
  resets the two globals however the \<^verbatim>\<open>try\<close> block ends. The hash function is a
  parameter (\<^verbatim>\<open>sha1\<close>, hex digest).
\<close>

definition loadFile :: "(string \<Rightarrow> string) \<Rightarrow> loader \<Rightarrow> test_file \<Rightarrow> unit completion \<times> loader" where
  "loadFile sha1 ld tf =
     (if \<not> isTestFileName (fileName tf) then (Normal (), ld)
      else
        (case (if fileBeingLoaded ld \<noteq> None \<and> fileBeingLoaded ld \<noteq> Some []
               then (Raise (Error ''called recursively?''), ld)
               else runDefines
                      (ld\<lparr> fileBeingLoaded := Some (basename (fileName tf)),
                           fileBeingLoadedHash := Some (sha1 (contents tf)) \<rparr>)
                      (defineCalls tf)) of
           (c, ld1) \<Rightarrow> (c, ld1\<lparr> fileBeingLoaded := None, fileBeingLoadedHash := None \<rparr>)))"

fun loadFiles :: "(string \<Rightarrow> string) \<Rightarrow> loader \<Rightarrow> test_file list \<Rightarrow> unit completion \<times> loader" where
  "loadFiles sha1 ld [] = (Normal (), ld)"
| "loadFiles sha1 ld (tf # tfs) =
     (case loadFile sha1 ld tf of
        (Normal _, ld1) \<Rightarrow> loadFiles sha1 ld1 tfs
      | other \<Rightarrow> other)"

definition getAllTests ::
    "(string \<Rightarrow> string) \<Rightarrow> test_file list \<Rightarrow> loader \<Rightarrow> test list completion \<times> loader" where
  "getAllTests sha1 dir ld =
     (case allTests ld of
        Some ts \<Rightarrow> (Normal ts, ld)
      | None \<Rightarrow>
          (case loadFiles sha1 (ld\<lparr> allTests := Some [] \<rparr>) dir of
             (Raise e, ld1) \<Rightarrow> (Raise e, ld1)
           | (_, ld1) \<Rightarrow>
               (Normal (case allTests ld1 of Some ts \<Rightarrow> ts | None \<Rightarrow> []), ld1)))"

section \<open>Test Runner\<close>

text \<open>
  The Pass-State as it is in memory and, through \<^verbatim>\<open>JSON.stringify\<close> and \<^verbatim>\<open>JSON.parse\<close>,
  in the file \<^verbatim>\<open>$HOME/.meteortest\<close>. A key of \<^verbatim>\<open>lastPassedHashes\<close> is a property name, so
  a \<^verbatim>\<open>null\<close> file is the key \<^verbatim>\<open>null\<close>; a value is a hash or \<^verbatim>\<open>null\<close>, and a missing
  key reads as \<^verbatim>\<open>undefined\<close> (\<open>None\<close>). The file system keeps the contents of the state
  file (\<open>None\<close>: no such file) and the calls made on it.
\<close>

record pass_state =
  version :: int
  lastPassedHashes :: "string \<rightharpoonup> string option"

datatype fs_op = ExistsSync | ReadFileSync | WriteFileSync

record filesys =
  stateFile :: "pass_state option"
  ops :: "fs_op list"

definition propKey :: "string option \<Rightarrow> string" where
  "propKey x = (case x of None \<Rightarrow> ''null'' | Some k \<Rightarrow> k)"

definition nl :: string where
  "nl = [CHR 0x0A]"

definition freshState :: pass_state where
  "freshState = \<lparr> version = 1, lastPassedHashes = Map.empty \<rparr>"

text \<open>Lines 418--423.\<close>

definition readTestState :: "filesys \<Rightarrow> pass_state \<times> filesys" where
  "readTestState disk =
     (case stateFile disk of
        None \<Rightarrow> (freshState, disk\<lparr> ops := ops disk @ [ExistsSync] \<rparr>)
      | Some ps \<Rightarrow>
          (if version ps \<noteq> 1 then freshState else ps,
           disk\<lparr> ops := ops disk @ [ExistsSync, ReadFileSync] \<rparr>))"

text \<open>The filter of lines 425--430: \<^verbatim>\<open>test.fileHash !== lastPassedHashes[test.file]\<close>.\<close>

definition changed :: "pass_state \<Rightarrow> test \<Rightarrow> bool" where
  "changed ps t = (lastPassedHashes ps (propKey (testFile t)) \<noteq> Some (fileHash t))"

definition selectTests :: "bool \<Rightarrow> pass_state \<Rightarrow> test list \<Rightarrow> test list" where
  "selectTests onlyChanged ps ts = (if onlyChanged then filter (changed ps) ts else ts)"

text \<open>The locals of \<^verbatim>\<open>runTests\<close> that the loop updates, and what has been written to stderr.\<close>

record progress =
  failureCount :: nat
  testState :: pass_state
  failuresInFile :: "string list"  \<comment> \<open>the keys set to \<^verbatim>\<open>true\<close>\<close>
  stderr :: "string list"

fun splitOn :: "char \<Rightarrow> string \<Rightarrow> string list" where
  "splitOn c [] = [[]]"
| "splitOn c (x # xs) =
     (if x = c then [] # splitOn c xs
      else (case splitOn c xs of
              [] \<Rightarrow> [[x]]
            | l # ls \<Rightarrow> (x # l) # ls))"

definition lastFiveLines :: "string \<Rightarrow> string list" where
  "lastFiveLines out =
     (let lines = splitOn (CHR 0x0A) out;
          lines1 = (if lines \<noteq> [] \<and> last lines = [] then butlast lines else lines)
      in drop (length lines1 - 5) lines1)"

text \<open>
  Lines 457--473: the report of a failure. \<^verbatim>\<open>parseStack\<close> and \<^verbatim>\<open>path.relative\<close> are not
  part of the harness; \<open>locate\<close> stands for the \<^verbatim>\<open>file:line\<close> text they give for a failure.
\<close>

definition reportFailure :: "(test_failure \<Rightarrow> string) \<Rightarrow> test_failure \<Rightarrow> string list" where
  "reportFailure locate fl =
     [''fail!'' @ nl, ''  => '' @ reason fl @ '' at '' @ locate fl @ nl] @
     (case fl of
        NoMatch out \<Rightarrow>
          (''  => Last five lines:'' @ nl) # map (\<lambda>line. ''  |'' @ line @ nl) (lastFiveLines out)
      | _ \<Rightarrow> [])"

text \<open>The body of the loop over the tests, lines 439--477.\<close>

definition runTest :: "(test_failure \<Rightarrow> string) \<Rightarrow> progress \<Rightarrow> test \<Rightarrow> unit completion \<times> progress" where
  "runTest locate st t =
     (let st1 = st\<lparr> stderr := stderr st @ [name t @ ''... ''],
                    testState := (testState st)\<lparr> lastPassedHashes :=
                      (lastPassedHashes (testState st))(propKey (testFile t) \<mapsto> fileHash t) \<rparr> \<rparr>
      in case func t of
           None \<Rightarrow> (Normal (), st1\<lparr> stderr := stderr st1 @ [''ok'' @ nl] \<rparr>)
         | Some (TestFailure fl) \<Rightarrow>
             (Normal (),
              st1\<lparr> failureCount := failureCount st1 + 1,
                   stderr := stderr st1 @ reportFailure locate fl,
                   failuresInFile := List.insert (propKey (testFile t)) (failuresInFile st1) \<rparr>)
         | Some e \<Rightarrow> (Raise e, st1\<lparr> stderr := stderr st1 @ [''exception'' @ nl @ nl] \<rparr>))"

fun runEach :: "(test_failure \<Rightarrow> string) \<Rightarrow> progress \<Rightarrow> test list \<Rightarrow> unit completion \<times> progress" where
  "runEach locate st [] = (Normal (), st)"
| "runEach locate st (t # ts) =
     (case runTest locate st t of
        (Normal _, st1) \<Rightarrow> runEach locate st1 ts
      | other \<Rightarrow> other)"

text \<open>Lines 480--482: \<^verbatim>\<open>delete testState.lastPassedHashes[f]\<close> for every file with a failure.\<close>

definition retract :: "string list \<Rightarrow> pass_state \<Rightarrow> pass_state" where
  "retract ks ps = ps\<lparr> lastPassedHashes := fold (\<lambda>k m. m(k := None)) ks (lastPassedHashes ps) \<rparr>"

fun showNat :: "nat \<Rightarrow> string" where
  "showNat n =
     (if n < 10 then [''0123456789'' ! n]
      else showNat (n div 10) @ [''0123456789'' ! (n mod 10)])"

definition summary :: "nat \<Rightarrow> string" where
  "summary n =
     (if n = 0 then nl @ ''All tests passed.'' @ nl
      else nl @ showNat n @ '' failure'' @ (if n > 1 then ''s'' else []) @ ''.'' @ nl)"

text \<open>
  The world \<^verbatim>\<open>runTests\<close> acts on: the loader's globals, the file system and stderr. Its
  parameters are the hash function, the locating function, the directory of test files and
  \<^verbatim>\<open>options.onlyChanged\<close>. It returns the exit code, or raises.
\<close>

record world =
  registry :: loader
  disk :: filesys
  console :: "string list"

definition runTests ::
    "(string \<Rightarrow> string) \<Rightarrow> (test_failure \<Rightarrow> string) \<Rightarrow> test_file list \<Rightarrow> bool \<Rightarrow> world
       \<Rightarrow> int completion \<times> world" where
  "runTests sha1 locate dir onlyChanged w =
     (case getAllTests sha1 dir (registry w) of
        (Normal tests, ld) \<Rightarrow>
          (let w1 = w\<lparr> registry := ld \<rparr> in
           if tests = [] then
             (Normal 0, w1\<lparr> console := console w1 @ [''No tests defined.'' @ nl] \<rparr>)
           else
             (let (ps, disk1) = readTestState (disk w1);
                  w2 = w1\<lparr> disk := disk1 \<rparr>;
                  tests1 = selectTests onlyChanged ps tests
              in if tests1 = [] then
                   (Normal 0, w2\<lparr> console := console w2 @ [''No tests changed.'' @ nl] \<rparr>)
                 else
                   (case runEach locate
                           \<lparr> failureCount = 0, testState = ps, failuresInFile = [],
                             stderr = console w2 \<rparr> tests1 of
                      (Normal _, st) \<Rightarrow>
                        (let ps1 = retract (failuresInFile st) (testState st);
                             w3 = w2\<lparr> disk := \<lparr> stateFile = Some ps1,
                                                  ops = ops (disk w2) @ [WriteFileSync] \<rparr>,
                                       console := stderr st @ [summary (failureCount st)] \<rparr>
                         in (Normal (if failureCount st = 0 then 0 else 1), w3))
                    | (Raise e, st) \<Rightarrow> (Raise e, w2\<lparr> console := stderr st \<rparr>)
                    | (Suspended f' t, st) \<Rightarrow> (Suspended f' t, w2\<lparr> console := stderr st \<rparr>))))
      | (Raise e, ld) \<Rightarrow> (Raise e, w\<lparr> registry := ld \<rparr>)
      | (Suspended f' t, ld) \<Rightarrow> (Suspended f' t, w\<lparr> registry := ld \<rparr>))"

text \<open>
  Words for the statements about the Runner: a test fails when its function throws a
  \<^verbatim>\<open>TestFailure\<close>; its outcome is classified when it returns or fails; and what the loop
  writes to stderr for one test.
\<close>

definition failing :: "test \<Rightarrow> bool" where
  "failing t = (case func t of Some (TestFailure _) \<Rightarrow> True | _ \<Rightarrow> False)"

definition classified :: "test \<Rightarrow> bool" where
  "classified t = (case func t of None \<Rightarrow> True | Some e \<Rightarrow> isTestFailure e)"

definition testOutput :: "(test_failure \<Rightarrow> string) \<Rightarrow> test \<Rightarrow> string list" where
  "testOutput locate t =
     (name t @ ''... '') #
     (case func t of
        None \<Rightarrow> [''ok'' @ nl]
      | Some (TestFailure fl) \<Rightarrow> reportFailure locate fl
      | Some (Error _) \<Rightarrow> [''exception'' @ nl @ nl])"

section \<open>Example inputs\<close>

text \<open>
  A fresh world (nothing discovered, no state file), a world whose state file says that
  \<^verbatim>\<open>login\<close> passed with hash \<^verbatim>\<open>v1\<close>, and two test files with the tests they register. In
  the examples the hash function is the identity.
\<close>

definition exampleWorld :: world where
  "exampleWorld = \<lparr> registry = loader_init, disk = \<lparr> stateFile = None, ops = [] \<rparr>,
                     console = [] \<rparr>"

definition loginFile :: test_file where
  "loginFile = \<lparr> fileName = ''login.js'', contents = ''v1'',
                 defineCalls = [(''logs in'', None),
                                (''logs out'', Some (TestFailure JunkAtEnd)),
                                (''shows help'', None)] \<rparr>"

definition deployFile :: test_file where
  "deployFile = \<lparr> fileName = ''deploy.js'', contents = ''v7'',
                  defineCalls = [(''deploys'', None),
                                 (''crashes'', Some (Error ''boom'')),
                                 (''never runs'', None)] \<rparr>"

definition passedWorld :: world where
  "passedWorld =
     \<lparr> registry = loader_init,
       disk = \<lparr> stateFile = Some \<lparr> version = 1,
                                    lastPassedHashes = [''login'' \<mapsto> Some ''v1''] \<rparr>,
                ops = [] \<rparr>,
       console = [] \<rparr>"

definition loginTests :: "test list" where
  "loginTests =
     [\<lparr> name = ''logs in'', testFile = Some ''login'', fileHash = Some ''v1'', func = None \<rparr>,
      \<lparr> name = ''logs out'', testFile = Some ''login'', fileHash = Some ''v1'',
        func = Some (TestFailure JunkAtEnd) \<rparr>,
      \<lparr> name = ''shows help'', testFile = Some ''login'', fileHash = Some ''v1'', func = None \<rparr>]"

definition deployTests :: "test list" where
  "deployTests =
     [\<lparr> name = ''deploys'', testFile = Some ''deploy'', fileHash = Some ''v7'', func = None \<rparr>,
      \<lparr> name = ''crashes'', testFile = Some ''deploy'', fileHash = Some ''v7'',
        func = Some (Error ''boom'') \<rparr>,
      \<lparr> name = ''never runs'', testFile = Some ''deploy'', fileHash = Some ''v7'', func = None \<rparr>]"

text \<open>
  The regular expression \<^verbatim>\<open>/ab/g\<close>, by what \<^verbatim>\<open>buf.match(/ab/g)\<close> returns: \<^verbatim>\<open>null\<close> when
  \<^verbatim>\<open>ab\<close> does not occur, else the array of all the matches, without an index.
\<close>

fun abCount :: "string \<Rightarrow> nat" where
  "abCount [] = 0"
| "abCount [c] = 0"
| "abCount (c # d # cs) =
     (if c = CHR ''a'' \<and> d = CHR ''b'' then Suc (abCount cs) else abCount (d # cs))"

definition abGlobal :: "string \<Rightarrow> regexp_match option" where
  "abGlobal b =
     (if abCount b = 0 then None
      else Some \<lparr> index = None, matched = ''ab'', others = replicate (abCount b - 1) ''ab'' \<rparr>)"

section \<open>Stream Matcher: properties\<close>

lemma occursAt_Cons_Suc: "occursAt p (c # cs) (Suc k) = occursAt p cs k"
  by (simp add: occursAt_def)

lemma occursAt_0: "occursAt p b 0 = (take (length p) b = p)"
proof -
  have "length p \<le> length b" if "take (length p) b = p"
  proof -
    from that have "length (take (length p) b) = length p" by simp
    then show ?thesis by simp
  qed
  then show ?thesis by (auto simp: occursAt_def)
qed

lemma indexOf_earliest: "indexOf b p = Some k \<longleftrightarrow> earliestAt p b k"
proof (induction b arbitrary: k)
  case Nil
  show ?case by (auto simp: earliestAt_def occursAt_def)
next
  case (Cons c cs)
  show ?case
  proof (cases "take (length p) (c # cs) = p")
    case True
    then have "occursAt p (c # cs) 0" by (simp add: occursAt_0)
    then have "earliestAt p (c # cs) k \<longleftrightarrow> k = 0"
      by (auto simp: earliestAt_def)
    with True show ?thesis by auto
  next
    case False
    then have no0: "\<not> occursAt p (c # cs) 0" by (simp add: occursAt_0)
    show ?thesis
    proof (cases k)
      case 0
      with False no0 show ?thesis by (auto simp: earliestAt_def)
    next
      case (Suc k')
      have "earliestAt p (c # cs) (Suc k') \<longleftrightarrow> earliestAt p cs k'"
        unfolding earliestAt_def occursAt_Cons_Suc
        using no0 by (auto simp: less_Suc_eq_0_disj occursAt_Cons_Suc)
      with False Suc Cons.IH [of k'] show ?thesis by auto
    qed
  qed
qed


lemma search_found:
  assumes "matchPattern self = Some pat" and "earliestMatch pat (buf self) k n"
  shows "search self h f =
           (case junkCheck self h f (Some k) of
              Inl e \<Rightarrow> (Some e, None, self, h)
            | Inr h' \<Rightarrow> (None, Some (matchValue pat (buf self)),
                          self\<lparr> buf := drop (k + n) (buf self) \<rparr>, h'))"
proof (cases pat)
  case (Str p)
  with assms have "indexOf (buf self) p = Some k" and "n = length p"
    by (simp_all add: indexOf_earliest)
  with assms(1) Str show ?thesis by (simp add: search_def split: sum.splits)
next
  case (RegExp re)
  with assms obtain m where "re (buf self) = Some m" "index m = Some k"
    "length (matched m) = n"
    by (auto split: option.splits)
  with assms(1) RegExp show ?thesis
    by (simp add: search_def sliceAfter_def split: sum.splits)
qed

lemma tryMatch_strict_junk:
  assumes "matchFuture self = Some f" and "f < length h" and "h ! f = Unresolved"
    and "matchStrict self = Some True" and "matchPattern self = Some pat"
    and "earliestMatch pat (buf self) k n" and "0 < k"
  shows "tryMatch self h =
           (Raise (Error ''Future resolved more than once''),
            clearRequest (self\<lparr> buf := drop (k + n) (buf self) \<rparr>),
            h[f := Thrown (TestFailure JunkBefore)])"
proof -
  have "junkCheck self h f (Some k) = Inr (h[f := Thrown (TestFailure JunkBefore)])"
    using assms by (simp add: junkCheck_def truthy_def Future_throw_def resolved_def)
  with assms(5,6) have
    "search self h f = (None, Some (matchValue pat (buf self)),
                        self\<lparr> buf := drop (k + n) (buf self) \<rparr>,
                        h[f := Thrown (TestFailure JunkBefore)])"
    by (simp add: search_found)
  moreover have "Future_return (h[f := Thrown (TestFailure JunkBefore)]) f v =
                   Inl (Error ''Future resolved more than once'')" for v
    using assms(2) by (simp add: Future_return_def resolved_def)
  ultimately show ?thesis
    using assms(1) by (simp add: tryMatch_def)
qed

lemma tryMatch_found_lenient:
  assumes "matchFuture self = Some f" and "f < length h" and "h ! f = Unresolved"
    and "\<not> (truthy (matchStrict self) \<and> 0 < k)" and "matchPattern self = Some pat"
    and "earliestMatch pat (buf self) k n"
  shows "tryMatch self h =
           (Normal (),
            clearRequest (self\<lparr> buf := drop (k + n) (buf self) \<rparr>),
            h[f := Returned (matchValue pat (buf self))])"
proof -
  have "junkCheck self h f (Some k) = Inr h"
    using assms(4) by (auto simp: junkCheck_def)
  with assms(5,6) have
    "search self h f = (None, Some (matchValue pat (buf self)),
                        self\<lparr> buf := drop (k + n) (buf self) \<rparr>, h)"
    by (simp add: search_found)
  then show ?thesis
    using assms(1-3) by (simp add: tryMatch_def Future_return_def resolved_def)
qed

text \<open>
  A lenient \<^verbatim>\<open>match\<close> on a buffer that holds the pattern (a literal, or a regular
  expression whose match carries its offset) returns the match at once and leaves the
  buffer after the end of the earliest occurrence.
\<close>

lemma match_lenient_consumes:
  assumes "matchFuture self = None" and "earliestMatch pat (buf self) k n"
  shows "Matcher_match self h pat timeout False =
           (Normal (matchValue pat (buf self)),
            clearRequest (self\<lparr> buf := drop (k + n) (buf self) \<rparr>),
            h @ [Returned (matchValue pat (buf self))])"
proof -
  let ?self1 = "self\<lparr> matchPattern := Some pat, matchStrict := Some False,
                        matchFuture := Some (length h) \<rparr>"
  have "tryMatch ?self1 (h @ [Unresolved]) =
          (Normal (),
           clearRequest (?self1\<lparr> buf := drop (k + n) (buf ?self1) \<rparr>),
           (h @ [Unresolved])[length h := Returned (matchValue pat (buf ?self1))])"
    by (rule tryMatch_found_lenient) (use assms in \<open>simp_all add: truthy_def\<close>)
  moreover have "clearRequest (?self1\<lparr> buf := drop (k + n) (buf ?self1) \<rparr>) =
                   clearRequest (self\<lparr> buf := drop (k + n) (buf self) \<rparr>)"
    by (simp add: clearRequest_def)
  ultimately show ?thesis
    using assms(1) by (simp add: Matcher_match_def Future_new_def Future_wait_def)
qed

text \<open>
  A strict \<^verbatim>\<open>match\<close> on a buffer whose earliest occurrence is at \<open>k > 0\<close>: the future
  of the request is thrown \<^verbatim>\<open>junk-before\<close>, but the caller gets the error of the second
  resolution, raised inside \<^verbatim>\<open>_tryMatch\<close> before \<^verbatim>\<open>f.wait()\<close> is reached.
\<close>

lemma match_strict_junk:
  assumes "matchFuture self = None" and "earliestMatch pat (buf self) k n" and "0 < k"
  shows "Matcher_match self h pat timeout True =
           (Raise (Error ''Future resolved more than once''),
            clearRequest (self\<lparr> buf := drop (k + n) (buf self) \<rparr>),
            h @ [Thrown (TestFailure JunkBefore)])"
proof -
  let ?self1 = "self\<lparr> matchPattern := Some pat, matchStrict := Some True,
                        matchFuture := Some (length h) \<rparr>"
  have "tryMatch ?self1 (h @ [Unresolved]) =
          (Raise (Error ''Future resolved more than once''),
           clearRequest (?self1\<lparr> buf := drop (k + n) (buf ?self1) \<rparr>),
           (h @ [Unresolved])[length h := Thrown (TestFailure JunkBefore)])"
    by (rule tryMatch_strict_junk) (use assms in simp_all)
  moreover have "clearRequest (?self1\<lparr> buf := drop (k + n) (buf ?self1) \<rparr>) =
                   clearRequest (self\<lparr> buf := drop (k + n) (buf self) \<rparr>)"
    by (simp add: clearRequest_def)
  ultimately show ?thesis
    using assms(1) by (simp add: Matcher_match_def Future_new_def)
qed


text \<open>
  The same on the other path: the request is pending and strict, and a \<^verbatim>\<open>write\<close> brings
  the pattern into the buffer at an offset \<open>k > 0\<close>. The waiting caller is failed with
  \<^verbatim>\<open>junk-before\<close>, the buffer is cut, and \<^verbatim>\<open>write\<close> raises the error of the second
  resolution into the handler of the stream.
\<close>

lemma write_strict_junk:
  assumes "matchFuture self = Some f" and "f < length h" and "h ! f = Unresolved"
    and "matchStrict self = Some True" and "matchPattern self = Some pat"
    and "earliestMatch pat (buf self @ data) k n" and "0 < k"
  shows "Matcher_write self h data =
           (Raise (Error ''Future resolved more than once''),
            clearRequest (self\<lparr> buf := drop (k + n) (buf self @ data),
                                 totalOutput := totalOutput self @ data \<rparr>),
            h[f := Thrown (TestFailure JunkBefore)])"
proof -
  let ?self1 = "self\<lparr> buf := buf self @ data, totalOutput := totalOutput self @ data \<rparr>"
  have "tryMatch ?self1 h =
          (Raise (Error ''Future resolved more than once''),
           clearRequest (?self1\<lparr> buf := drop (k + n) (buf ?self1) \<rparr>),
           h[f := Thrown (TestFailure JunkBefore)])"
    by (rule tryMatch_strict_junk) (use assms in simp_all)
  then show ?thesis by (simp add: Matcher_write_def clearRequest_def)
qed

text \<open>
  C7. A matcher that has a request pending rejects a second \<^verbatim>\<open>match\<close>: the call raises a
  plain \<^verbatim>\<open>Error\<close>, which is not a \<^verbatim>\<open>TestFailure\<close>, before it touches anything. The
  matcher and the store of futures are as they were, so the pending request is still the
  only one.
\<close>

theorem match_pending_rejected:
  assumes "matchFuture self = Some f"
  shows "Matcher_match self h pat timeout strict =
           (Raise (Error ''already have a match pending?''), self, h) \<and>
         \<not> isTestFailure (Error ''already have a match pending?'')"
  using assms by (simp add: Matcher_match_def)

theorem match_pending_rejected_witness:
  "Matcher_match Matcher_new [] (Str ''ready'') 1 False =
     (Suspended 0 (Some 1000),
      Matcher_new\<lparr> matchPattern := Some (Str ''ready''), matchStrict := Some False,
                   matchFuture := Some 0 \<rparr>,
      [Unresolved]) \<and>
   Matcher_match
     (Matcher_new\<lparr> matchPattern := Some (Str ''ready''), matchStrict := Some False,
                   matchFuture := Some 0 \<rparr>)
     [Unresolved] (Str ''again'') 1 False =
     (Raise (Error ''already have a match pending?''),
      Matcher_new\<lparr> matchPattern := Some (Str ''ready''), matchStrict := Some False,
                   matchFuture := Some 0 \<rparr>,
      [Unresolved])"
proof -
  have pending: "matchFuture (Matcher_new\<lparr> matchPattern := Some (Str ''ready''),
                   matchStrict := Some False, matchFuture := Some 0 \<rparr>) = Some 0"
    by simp
  have first: "Matcher_match Matcher_new [] (Str ''ready'') 1 False =
     (Suspended 0 (Some 1000),
      Matcher_new\<lparr> matchPattern := Some (Str ''ready''), matchStrict := Some False,
                   matchFuture := Some 0 \<rparr>,
      [Unresolved])"
    by (simp add: Matcher_match_def Matcher_new_def Future_new_def tryMatch_def search_def
        Future_wait_def)
  show ?thesis
    using first match_pending_rejected [OF pending, of "[Unresolved]" "Str ''again''" 1 False]
    by simp
qed

text \<open>
  A strict request for a regular expression with the \<^verbatim>\<open>g\<close> flag, once the expression
  matches: the future is thrown \<^verbatim>\<open>junk-before\<close> wherever the match is, the buffer is left as
  it is, and the second resolution raises.
\<close>

lemma tryMatch_strict_global:
  assumes "matchFuture self = Some f" and "f < length h" and "h ! f = Unresolved"
    and "matchStrict self = Some True" and "matchPattern self = Some (RegExp re)"
    and "re (buf self) = Some m" and "index m = None"
  shows "tryMatch self h =
           (Raise (Error ''Future resolved more than once''),
            clearRequest self,
            h[f := Thrown (TestFailure JunkBefore)])"
proof -
  have "junkCheck self h f None = Inr (h[f := Thrown (TestFailure JunkBefore)])"
    using assms by (simp add: junkCheck_def truthy_def Future_throw_def resolved_def)
  with assms(5-7) have
    "search self h f = (None, Some (MatchArray m), self\<lparr> buf := buf self \<rparr>,
                        h[f := Thrown (TestFailure JunkBefore)])"
    by (simp add: search_def sliceAfter_def)
  moreover have "Future_return (h[f := Thrown (TestFailure JunkBefore)]) f v =
                   Inl (Error ''Future resolved more than once'')" for v
    using assms(2) by (simp add: Future_return_def resolved_def)
  ultimately show ?thesis
    using assms(1) by (simp add: tryMatch_def)
qed

text \<open>
  C9, as stated, fails. The request is strict, its pattern is \<^verbatim>\<open>/ab/g\<close>, and the buffer
  holds \<^verbatim>\<open>xxab.\<close>, where the earliest occurrence of \<^verbatim>\<open>ab\<close> is at offset 2. The request is
  failed with \<^verbatim>\<open>junk-before\<close>, but the buffer is not consumed: it still holds \<^verbatim>\<open>xxab.\<close>.
\<close>

theorem strict_junk_global_keeps_buffer:
  "indexOf ''xxab.'' ''ab'' = Some 2 \<and>
   abGlobal ''xxab.'' = Some \<lparr> index = None, matched = ''ab'', others = [] \<rparr> \<and>
   snd (snd (tryMatch \<lparr> buf = ''xxab.'', totalOutput = ''xxab.'', ended = False,
                        matchPattern = Some (RegExp abGlobal), matchFuture = Some 0,
                        matchStrict = Some True \<rparr> [Unresolved])) ! 0 =
     Thrown (TestFailure JunkBefore) \<and>
   buf (fst (snd (tryMatch \<lparr> buf = ''xxab.'', totalOutput = ''xxab.'', ended = False,
                             matchPattern = Some (RegExp abGlobal), matchFuture = Some 0,
                             matchStrict = Some True \<rparr> [Unresolved]))) = ''xxab.''"
proof -
  let ?m = "\<lparr> buf = ''xxab.'', totalOutput = ''xxab.'', ended = False,
              matchPattern = Some (RegExp abGlobal), matchFuture = Some 0,
              matchStrict = Some True \<rparr>"
  have g: "abGlobal ''xxab.'' = Some \<lparr> index = None, matched = ''ab'', others = [] \<rparr>"
    by (simp add: abGlobal_def)
  have "tryMatch ?m [Unresolved] =
          (Raise (Error ''Future resolved more than once''), clearRequest ?m,
           [Unresolved][0 := Thrown (TestFailure JunkBefore)])"
    by (rule tryMatch_strict_global
          [where re = abGlobal and m = "\<lparr> index = None, matched = ''ab'', others = [] \<rparr>"])
       (simp_all add: g)
  with g show ?thesis by (simp add: clearRequest_def)
qed

text \<open>
  C9, amended. \<^verbatim>\<open>_tryMatch\<close> is what \<^verbatim>\<open>match\<close>, \<^verbatim>\<open>write\<close> and \<^verbatim>\<open>end\<close> run on the pending
  request. Let the pattern be a literal string, or a regular expression whose match
  carries its offset (no \<^verbatim>\<open>g\<close> flag). When the request is strict and the earliest match in
  the buffer starts at \<open>k > 0\<close>, the future of the request is failed with \<^verbatim>\<open>junk-before\<close>,
  and the buffer is cut after the end of that match all the same: the failing path
  changes the buffer.
\<close>

theorem strict_junk_consumes_buffer:
  assumes "matchFuture self = Some f" and "f < length h" and "h ! f = Unresolved"
    and "matchStrict self = Some True" and "matchPattern self = Some pat"
    and "earliestMatch pat (buf self) k n" and "0 < k"
  shows "snd (snd (tryMatch self h)) ! f = Thrown (TestFailure JunkBefore) \<and>
         buf (fst (snd (tryMatch self h))) = drop (k + n) (buf self)"
  using assms(2) tryMatch_strict_junk [OF assms] by (simp add: clearRequest_def)

theorem strict_junk_consumes_buffer_witness:
  "earliestMatch (Str ''ab'') ''xxab.'' 2 2 \<and>
   snd (snd (tryMatch \<lparr> buf = ''xxab.'', totalOutput = ''xxab.'', ended = False,
                        matchPattern = Some (Str ''ab''), matchFuture = Some 0,
                        matchStrict = Some True \<rparr> [Unresolved])) ! 0 =
     Thrown (TestFailure JunkBefore) \<and>
   buf (fst (snd (tryMatch \<lparr> buf = ''xxab.'', totalOutput = ''xxab.'', ended = False,
                             matchPattern = Some (Str ''ab''), matchFuture = Some 0,
                             matchStrict = Some True \<rparr> [Unresolved]))) = ''.''"
proof -
  let ?m = "\<lparr> buf = ''xxab.'', totalOutput = ''xxab.'', ended = False,
              matchPattern = Some (Str ''ab''), matchFuture = Some 0,
              matchStrict = Some True \<rparr>"
  have e: "earliestMatch (Str ''ab'') (buf ?m) 2 2"
    by (simp add: indexOf_earliest [symmetric])
  have "snd (snd (tryMatch ?m [Unresolved])) ! 0 = Thrown (TestFailure JunkBefore) \<and>
        buf (fst (snd (tryMatch ?m [Unresolved]))) = drop (2 + 2) (buf ?m)"
    by (rule strict_junk_consumes_buffer [OF _ _ _ _ _ e]) simp_all
  with e show ?thesis by simp
qed

text \<open>
  C1, evaluated. The buffer holds \<^verbatim>\<open>xab\<close> and \<^verbatim>\<open>match('ab', 1, true)\<close> is called. The future
  of the request is failed with \<^verbatim>\<open>junk-before\<close>, but the call does not end with that
  failure: \<^verbatim>\<open>_tryMatch\<close> goes on, empties the buffer and resolves the same future again,
  and the \<^verbatim>\<open>Error\<close> of that second resolution is what \<^verbatim>\<open>match\<close> raises.
\<close>

theorem strict_match_raises_error:
  "Matcher_match (Matcher_new\<lparr> buf := ''xab'', totalOutput := ''xab'' \<rparr>) []
     (Str ''ab'') 1 True =
     (Raise (Error ''Future resolved more than once''),
      Matcher_new\<lparr> buf := [], totalOutput := ''xab'' \<rparr>,
      [Thrown (TestFailure JunkBefore)]) \<and>
   \<not> isTestFailure (Error ''Future resolved more than once'')"
  by (simp add: Matcher_match_def Matcher_new_def Future_new_def tryMatch_def search_def
      junkCheck_def truthy_def Future_throw_def Future_return_def resolved_def
      clearRequest_def)


section \<open>Process Session: properties\<close>

lemma ensureStarted_fields [simp]:
  "exitStatus (ensureStarted self) = exitStatus self"
  "exitFutures (ensureStarted self) = exitFutures self"
  "baseTimeout (ensureStarted self) = baseTimeout self"
  "extraTime (ensureStarted self) = extraTime self"
  "stdoutMatcher (ensureStarted self) = stdoutMatcher self"
  "stderrMatcher (ensureStarted self) = stderrMatcher self"
  by (simp_all add: ensureStarted_def)

text \<open>
  \<^verbatim>\<open>expectExit\<close>, called while the child is running, waits for the base timeout plus
  whatever \<^verbatim>\<open>waitSecs\<close> has accumulated, and resets the accumulator.
\<close>

lemma expectExit_timer:
  assumes "exitStatus self = Unset" and "exitFutures self = Some fs"
  shows "fst (expectExit (waitSecs self s) h expected) =
           Suspended (length h) (Some ((baseTimeout self + (extraTime self + s)) * 1000)) \<and>
         extraTime (fst (snd (expectExit (waitSecs self s) h expected))) = 0"
  using assms by (simp add: expectExit_def waitSecs_def Future_new_def)

text \<open>
  \<^verbatim>\<open>expectEnd\<close> resets the accumulator before it calls \<^verbatim>\<open>expectExit\<close>, so the exit wait
  gets the base timeout alone.
\<close>

lemma expectEnd_timer:
  assumes "exitStatus self = Unset" and "exitFutures self = Some fs"
  shows "fst (expectEnd (waitSecs self s) h) =
           Suspended (length h) (Some (baseTimeout self * 1000))"
proof -
  let ?self2 = "(ensureStarted (waitSecs self s))\<lparr> extraTime := 0 \<rparr>"
  have "exitStatus ?self2 = Unset" and "exitFutures ?self2 = Some fs"
    and "baseTimeout ?self2 = baseTimeout self" and "extraTime ?self2 = 0"
    using assms by (simp_all add: waitSecs_def)
  then have "fst (expectExit ?self2 h None) =
               Suspended (length h) (Some (baseTimeout self * 1000))"
    by (simp add: expectExit_def Future_new_def)
  then show ?thesis
    by (auto simp: expectEnd_def Let_def split: prod.splits completion.splits)
qed

lemma Run_match_timer:
  assumes "fst (Run_match (waitSecs self s) h pat strict) = Suspended f t"
  shows "t = (if baseTimeout self + (extraTime self + s) \<noteq> 0
              then Some ((baseTimeout self + (extraTime self + s)) * 1000) else None) \<and>
         extraTime (fst (snd (Run_match (waitSecs self s) h pat strict))) = 0"
  using assms
  by (auto simp: Run_match_def waitSecs_def Matcher_match_def Future_wait_def Let_def
      split: prod.splits completion.splits if_splits fstate.splits)

text \<open>
  C2, evaluated. A fresh session (base timeout 1 second), \<^verbatim>\<open>waitSecs(5)\<close>, then
  \<^verbatim>\<open>expectEnd()\<close> while the child is still running: the exit wait is armed with 1000 ms.
  \<^verbatim>\<open>expectExit()\<close> in the same state is armed with 6000 ms.
\<close>

theorem expectEnd_drops_extra_time:
  "fst (expectEnd (waitSecs (Run_init ''/tmp/sandbox'') 5) []) = Suspended 0 (Some 1000) \<and>
   fst (expectExit (waitSecs (Run_init ''/tmp/sandbox'') 5) [] None) = Suspended 0 (Some 6000)"
  by (simp add: expectEnd_def expectExit_def waitSecs_def Run_init_def ensureStarted_def
      Future_new_def)

text \<open>
  C3. With the exit status known, \<^verbatim>\<open>expectExit\<close> does not wait. It fails with
  \<^verbatim>\<open>spawn-failure\<close> when the status is the failed-to-spawn marker (\<^verbatim>\<open>null\<close>); when the child
  exited, it fails with \<^verbatim>\<open>wrong-exit-code\<close>, carrying the expected code and the actual
  status, exactly when a code is given and differs from \<^verbatim>\<open>exitStatus.code\<close>, and it
  returns otherwise. Whether it returns does not depend on the signal.
\<close>

theorem expectExit_known_status:
  assumes "exitStatus self \<noteq> Unset"
  shows "(exitStatus self = FailedToSpawn \<longrightarrow>
            fst (expectExit self h expected) = Raise (TestFailure SpawnFailure)) \<and>
         (\<forall>st. exitStatus self = Exited st \<longrightarrow>
            (\<forall>c. expected = Some c \<and> code st \<noteq> Some c \<longrightarrow>
               fst (expectExit self h expected) = Raise (TestFailure (WrongExitCode c st))) \<and>
            ((\<forall>c. expected = Some c \<longrightarrow> code st = Some c) \<longrightarrow>
               fst (expectExit self h expected) = Normal ()) \<and>
            (\<forall>sig. (fst (expectExit (self\<lparr> exitStatus := Exited (st\<lparr> signal := sig \<rparr>) \<rparr>)
                           h expected) = Normal ()) =
                    (fst (expectExit self h expected) = Normal ())))"
  using assms
  by (auto simp: expectExit_def checkExit_def Let_def split: option.splits)

theorem expectExit_known_status_witness:
  "exitStatus ((Run_init ''/tmp/sandbox'')\<lparr> proc := Some [],
       exitStatus := Exited \<lparr> code = None, signal = Some ''SIGKILL'' \<rparr> \<rparr>) \<noteq> Unset \<and>
   fst (expectExit ((Run_init ''/tmp/sandbox'')\<lparr> proc := Some [],
       exitStatus := Exited \<lparr> code = None, signal = Some ''SIGKILL'' \<rparr> \<rparr>) [] (Some 0)) =
     Raise (TestFailure (WrongExitCode 0 \<lparr> code = None, signal = Some ''SIGKILL'' \<rparr>)) \<and>
   fst (expectExit ((Run_init ''/tmp/sandbox'')\<lparr> proc := Some [],
       exitStatus := Exited \<lparr> code = Some 0, signal = None \<rparr> \<rparr>) [] (Some 0)) = Normal () \<and>
   fst (expectExit ((Run_init ''/tmp/sandbox'')\<lparr> proc := Some [],
       exitStatus := FailedToSpawn \<rparr>) [] (Some 0)) = Raise (TestFailure SpawnFailure)"
proof -
  let ?killed = "(Run_init ''/tmp/sandbox'')\<lparr> proc := Some [],
       exitStatus := Exited \<lparr> code = None, signal = Some ''SIGKILL'' \<rparr> \<rparr>"
  let ?clean = "(Run_init ''/tmp/sandbox'')\<lparr> proc := Some [],
       exitStatus := Exited \<lparr> code = Some 0, signal = None \<rparr> \<rparr>"
  let ?failed = "(Run_init ''/tmp/sandbox'')\<lparr> proc := Some [], exitStatus := FailedToSpawn \<rparr>"
  have k: "exitStatus ?killed \<noteq> Unset" and c: "exitStatus ?clean \<noteq> Unset"
    and f: "exitStatus ?failed \<noteq> Unset"
    by simp_all
  show ?thesis
    using k expectExit_known_status [OF k, of "[]" "Some 0"]
      expectExit_known_status [OF c, of "[]" "Some 0"]
      expectExit_known_status [OF f, of "[]" "Some 0"]
    by simp
qed

text \<open>A termination notification that finds the exit status set changes nothing.\<close>

lemma on_close_again:
  assumes "exitStatus self \<noteq> Unset"
  shows "on_close self h c s = (Normal (), self, h)"
  using assms by (simp add: on_close_def)

lemma returnAll_unresolved:
  assumes "distinct fs" and "\<forall>f \<in> set fs. f < length h \<and> h ! f = Unresolved"
  shows "returnAll h fs = (None, fold (\<lambda>f h'. h'[f := Returned Undefined]) fs h)"
  using assms
proof (induction fs arbitrary: h)
  case Nil
  show ?case by simp
next
  case (Cons f fs)
  let ?h1 = "h[f := Returned Undefined]"
  from Cons.prems have "Future_return h f Undefined = Inr ?h1"
    by (simp add: Future_return_def resolved_def)
  moreover from Cons.prems have "\<forall>g \<in> set fs. g < length ?h1 \<and> ?h1 ! g = Unresolved"
    by (auto simp: nth_list_update)
  with Cons.IH [of ?h1] Cons.prems
  have "returnAll ?h1 fs = (None, fold (\<lambda>f h'. h'[f := Returned Undefined]) fs ?h1)"
    by simp
  ultimately show ?case by simp
qed

text \<open>
  The first termination notification, when every registered waiter is still unresolved and
  no match is pending: the status is set, the waiters are returned and both matchers are
  ended.
\<close>

lemma on_close_first:
  assumes "exitStatus self = Unset" and "exitFutures self = Some fs"
    and "distinct fs" and "\<forall>f \<in> set fs. f < length h \<and> h ! f = Unresolved"
    and "matchFuture (stdoutMatcher self) = None" and "matchFuture (stderrMatcher self) = None"
  shows "on_close self h c s =
           (Normal (),
            self\<lparr> exitStatus := Exited \<lparr> code = c, signal = s \<rparr>, exitFutures := None,
                  stdoutMatcher := (stdoutMatcher self)\<lparr> ended := True \<rparr>,
                  stderrMatcher := (stderrMatcher self)\<lparr> ended := True \<rparr> \<rparr>,
            fold (\<lambda>f h'. h'[f := Returned Undefined]) fs h)"
  using assms returnAll_unresolved [OF assms(3,4)]
  by (simp add: on_close_def exited_def Matcher_end_def tryMatch_def)

text \<open>
  C6, evaluated. A fresh session calls \<^verbatim>\<open>expectExit()\<close> and waits; the timer fires and
  fails the waiter with \<^verbatim>\<open>exit-timeout\<close>, and the waiter stays in \<^verbatim>\<open>exitFutures\<close>. When the
  child then terminates, \<^verbatim>\<open>_exited\<close> sets the status and calls \<^verbatim>\<open>return\<close> on the resolved
  waiter: the notification raises and neither matcher is ended.
\<close>

theorem close_after_exit_timeout_raises:
  "expectExit (Run_init ''/tmp/sandbox'') [] None =
     (Suspended 0 (Some 1000),
      (Run_init ''/tmp/sandbox'')\<lparr> proc := Some [], extraTime := 0, exitFutures := Some [0] \<rparr>,
      [Unresolved]) \<and>
   expectExit_timeout [Unresolved] 0 = (Normal (), [Thrown (TestFailure ExitTimeout)]) \<and>
   on_close ((Run_init ''/tmp/sandbox'')\<lparr> proc := Some [], extraTime := 0,
                                           exitFutures := Some [0] \<rparr>)
            [Thrown (TestFailure ExitTimeout)] (Some 0) None =
     (Raise (Error ''Future resolved more than once''),
      (Run_init ''/tmp/sandbox'')\<lparr> proc := Some [], extraTime := 0,
         exitStatus := Exited \<lparr> code = Some 0, signal = None \<rparr>, exitFutures := None \<rparr>,
      [Thrown (TestFailure ExitTimeout)]) \<and>
   \<not> ended (stdoutMatcher ((Run_init ''/tmp/sandbox'')\<lparr> proc := Some [], extraTime := 0,
         exitStatus := Exited \<lparr> code = Some 0, signal = None \<rparr>, exitFutures := None \<rparr>)) \<and>
   \<not> ended (stderrMatcher ((Run_init ''/tmp/sandbox'')\<lparr> proc := Some [], extraTime := 0,
         exitStatus := Exited \<lparr> code = Some 0, signal = None \<rparr>, exitFutures := None \<rparr>))"
  by (simp add: expectExit_def expectExit_timeout_def on_close_def exited_def Run_init_def
      ensureStarted_def Future_new_def Future_throw_def Future_return_def resolved_def
      Matcher_new_def)


section \<open>Registry and Runner: properties\<close>

text \<open>
  C8, as stated, fails. Discovery of an empty directory leaves the registry
  initialised and no file being loaded; \<^verbatim>\<open>define\<close> called then does not fail: it registers
  a test whose file and hash are \<^verbatim>\<open>null\<close>.
\<close>

theorem define_outside_load_succeeds:
  "fileBeingLoaded (snd (getAllTests id [] loader_init)) = None \<and>
   define_test (snd (getAllTests id [] loader_init)) ''late'' None =
     (Normal (),
      \<lparr> allTests = Some [\<lparr> name = ''late'', testFile = None, fileHash = None, func = None \<rparr>],
        fileBeingLoaded = None, fileBeingLoadedHash = None \<rparr>)"
  by (simp add: getAllTests_def loader_init_def define_test_def)

text \<open>
  C8, amended. \<^verbatim>\<open>define\<close> fails only while the registry does not exist yet (before
  discovery has started), with a \<^verbatim>\<open>TypeError\<close> and without registering anything. Once the
  registry exists it appends one test, with the given name and body, tagged with the
  loader's current file and hash: the file being loaded and its content hash during a
  load, \<^verbatim>\<open>null\<close> outside one.
\<close>

theorem define_tags_with_current_file:
  "(allTests ld = None \<longrightarrow>
      (\<exists>e. define_test ld nm fn = (Raise e, ld) \<and> \<not> isTestFailure e)) \<and>
   (\<forall>ts. allTests ld = Some ts \<longrightarrow>
      (\<exists>t. define_test ld nm fn = (Normal (), ld\<lparr> allTests := Some (ts @ [t]) \<rparr>) \<and>
           name t = nm \<and> func t = fn \<and>
           testFile t = fileBeingLoaded ld \<and> fileHash t = fileBeingLoadedHash ld))"
proof (intro conjI allI impI)
  assume "allTests ld = None"
  then show "\<exists>e. define_test ld nm fn = (Raise e, ld) \<and> \<not> isTestFailure e"
    by (simp add: define_test_def)
next
  fix ts
  assume "allTests ld = Some ts"
  then show "\<exists>t. define_test ld nm fn = (Normal (), ld\<lparr> allTests := Some (ts @ [t]) \<rparr>) \<and>
               name t = nm \<and> func t = fn \<and>
               testFile t = fileBeingLoaded ld \<and> fileHash t = fileBeingLoadedHash ld"
    by (intro exI [of _ "\<lparr> name = nm, testFile = fileBeingLoaded ld,
                           fileHash = fileBeingLoadedHash ld, func = fn \<rparr>"])
       (simp add: define_test_def)
qed

theorem define_tags_with_current_file_witness:
  "(\<exists>e. define_test loader_init ''early'' None = (Raise e, loader_init) \<and> \<not> isTestFailure e) \<and>
   (\<exists>t. define_test \<lparr> allTests = Some [], fileBeingLoaded = Some ''login'',
                       fileBeingLoadedHash = Some ''5baa61'' \<rparr> ''logs in'' None =
           (Normal (), \<lparr> allTests = Some [t], fileBeingLoaded = Some ''login'',
                         fileBeingLoadedHash = Some ''5baa61'' \<rparr>) \<and>
         name t = ''logs in'' \<and> func t = None \<and>
         testFile t = Some ''login'' \<and> fileHash t = Some ''5baa61'')"
  using define_tags_with_current_file [of loader_init "''early''" None]
    define_tags_with_current_file
      [of "\<lparr> allTests = Some [], fileBeingLoaded = Some ''login'',
              fileBeingLoadedHash = Some ''5baa61'' \<rparr>" "''logs in''" None]
  by (simp add: loader_init_def)

text \<open>
  During discovery, every test a file registers carries the base name of that file and
  the hash of its contents.
\<close>

lemma runDefines_tags:
  assumes "allTests ld = Some ts"
  shows "runDefines ld ds =
           (Normal (),
            ld\<lparr> allTests := Some (ts @ map (\<lambda>(nm, fn). \<lparr> name = nm, testFile = fileBeingLoaded ld,
                                     fileHash = fileBeingLoadedHash ld, func = fn \<rparr>) ds) \<rparr>)"
  using assms
proof (induction ds arbitrary: ld ts)
  case Nil
  then show ?case by simp
next
  case (Cons d ds)
  obtain nm fn where d: "d = (nm, fn)" by (cases d)
  let ?t = "\<lparr> name = nm, testFile = fileBeingLoaded ld,
               fileHash = fileBeingLoadedHash ld, func = fn \<rparr>"
  let ?ld1 = "ld\<lparr> allTests := Some (ts @ [?t]) \<rparr>"
  have step: "define_test ld nm fn = (Normal (), ?ld1)"
    using Cons.prems by (simp add: define_test_def)
  have "allTests ?ld1 = Some (ts @ [?t])" by simp
  from Cons.IH [OF this] step d show ?case by simp
qed

lemma loadFile_tags:
  assumes "allTests ld = Some ts" and "fileBeingLoaded ld = None"
    and "isTestFileName (fileName tf)"
  shows "loadFile sha1 ld tf =
           (Normal (),
            ld\<lparr> allTests := Some (ts @ map (\<lambda>(nm, fn). \<lparr> name = nm,
                                     testFile = Some (basename (fileName tf)),
                                     fileHash = Some (sha1 (contents tf)), func = fn \<rparr>)
                                   (defineCalls tf)),
                 fileBeingLoaded := None, fileBeingLoadedHash := None \<rparr>)"
proof -
  let ?ld0 = "ld\<lparr> fileBeingLoaded := Some (basename (fileName tf)),
                  fileBeingLoadedHash := Some (sha1 (contents tf)) \<rparr>"
  have "allTests ?ld0 = Some ts" using assms(1) by simp
  from runDefines_tags [OF this, of "defineCalls tf"] assms(2,3)
  show ?thesis by (simp add: loadFile_def)
qed

text \<open>How \<^verbatim>\<open>runTests\<close> goes on once discovery has returned the tests.\<close>

lemma runTests_none_defined:
  assumes "getAllTests sha1 dir (registry w) = (Normal [], ld)"
  shows "runTests sha1 locate dir onlyChanged w =
           (Normal 0, w\<lparr> registry := ld, console := console w @ [''No tests defined.'' @ nl] \<rparr>)"
  using assms by (simp add: runTests_def)

lemma runTests_none_changed:
  assumes "getAllTests sha1 dir (registry w) = (Normal tests, ld)" and "tests \<noteq> []"
    and "selectTests onlyChanged (fst (readTestState (disk w))) tests = []"
  shows "runTests sha1 locate dir onlyChanged w =
           (Normal 0, w\<lparr> registry := ld, disk := snd (readTestState (disk w)),
                         console := console w @ [''No tests changed.'' @ nl] \<rparr>)"
  using assms by (cases "readTestState (disk w)") (simp add: runTests_def Let_def)

lemma readTestState_disk:
  "stateFile (snd (readTestState d)) = stateFile d \<and>
   (ops (snd (readTestState d)) = ops d @ [ExistsSync] \<or>
    ops (snd (readTestState d)) = ops d @ [ExistsSync, ReadFileSync])"
  by (simp add: readTestState_def split: option.splits)

text \<open>Discovery on the example files.\<close>

lemma discover_login:
  "getAllTests (\<lambda>c. c) [loginFile] (registry exampleWorld) =
     (Normal loginTests,
      \<lparr> allTests = Some loginTests, fileBeingLoaded = None, fileBeingLoadedHash = None \<rparr>)"
  by (simp add: getAllTests_def exampleWorld_def loader_init_def loginFile_def loadFile_def
      isTestFileName_def basename_def define_test_def loginTests_def)

lemma discover_deploy:
  "getAllTests (\<lambda>c. c) [deployFile] (registry exampleWorld) =
     (Normal deployTests,
      \<lparr> allTests = Some deployTests, fileBeingLoaded = None, fileBeingLoadedHash = None \<rparr>)"
  by (simp add: getAllTests_def exampleWorld_def loader_init_def deployFile_def loadFile_def
      isTestFileName_def basename_def define_test_def deployTests_def)

lemma select_all_example:
  "selectTests False (fst (readTestState (disk exampleWorld))) ts = ts"
  by (simp add: selectTests_def)

text \<open>
  C10. A run that gets its tests from discovery and has none to execute, because none
  are defined or because the \<^verbatim>\<open>onlyChanged\<close> filter leaves none, returns 0 and does not
  write the state file: its contents are what they were and no write is among the calls
  the run adds. When no tests are defined the file system is not touched at all, so the
  state file is not even read.
\<close>

theorem no_tests_no_write:
  assumes "getAllTests sha1 dir (registry w) = (Normal tests, ld)"
    and "tests = [] \<or> selectTests onlyChanged (fst (readTestState (disk w))) tests = []"
  shows "fst (runTests sha1 locate dir onlyChanged w) = Normal 0 \<and>
         stateFile (disk (snd (runTests sha1 locate dir onlyChanged w))) = stateFile (disk w) \<and>
         take (length (ops (disk w))) (ops (disk (snd (runTests sha1 locate dir onlyChanged w))))
           = ops (disk w) \<and>
         WriteFileSync \<notin> set (drop (length (ops (disk w)))
                                  (ops (disk (snd (runTests sha1 locate dir onlyChanged w))))) \<and>
         (tests = [] \<longrightarrow> disk (snd (runTests sha1 locate dir onlyChanged w)) = disk w)"
proof (cases "tests = []")
  case True
  with assms(1) show ?thesis by (simp add: runTests_none_defined)
next
  case False
  with assms(2) have "selectTests onlyChanged (fst (readTestState (disk w))) tests = []"
    by simp
  from runTests_none_changed [OF assms(1) False this, of locate] False
    readTestState_disk [of "disk w"]
  show ?thesis by auto
qed

theorem no_tests_no_write_witness:
  "fst (runTests (\<lambda>c. c) (\<lambda>fl. ''login.js:7'') [] False exampleWorld) = Normal 0 \<and>
   disk (snd (runTests (\<lambda>c. c) (\<lambda>fl. ''login.js:7'') [] False exampleWorld)) =
     disk exampleWorld \<and>
   fst (runTests (\<lambda>c. c) (\<lambda>fl. ''login.js:7'') [loginFile] True passedWorld) = Normal 0 \<and>
   stateFile (disk (snd (runTests (\<lambda>c. c) (\<lambda>fl. ''login.js:7'') [loginFile] True passedWorld))) =
     stateFile (disk passedWorld) \<and>
   WriteFileSync \<notin> set (ops (disk (snd (runTests (\<lambda>c. c) (\<lambda>fl. ''login.js:7'') [loginFile]
                                            True passedWorld))))"
proof -
  have d0: "getAllTests (\<lambda>c. c) [] (registry exampleWorld) =
              (Normal [], \<lparr> allTests = Some [], fileBeingLoaded = None,
                            fileBeingLoadedHash = None \<rparr>)"
    by (simp add: getAllTests_def exampleWorld_def loader_init_def)
  have d1: "getAllTests (\<lambda>c. c) [loginFile] (registry passedWorld) =
     (Normal loginTests,
      \<lparr> allTests = Some loginTests, fileBeingLoaded = None, fileBeingLoadedHash = None \<rparr>)"
    using discover_login by (simp add: passedWorld_def exampleWorld_def)
  have none0: "[] = ([] :: test list) \<or>
               selectTests False (fst (readTestState (disk exampleWorld))) [] = []"
    by simp
  have none1: "loginTests = [] \<or>
               selectTests True (fst (readTestState (disk passedWorld))) loginTests = []"
    by (simp add: selectTests_def changed_def readTestState_def passedWorld_def
        loginTests_def propKey_def)
  from no_tests_no_write [OF d0 none0, of "\<lambda>fl. ''login.js:7''"]
    no_tests_no_write [OF d1 none1, of "\<lambda>fl. ''login.js:7''"]
  show ?thesis by (simp add: passedWorld_def)
qed

text \<open>The loop over the tests.\<close>

lemma runEach_append:
  "runEach locate st (xs @ ys) =
     (case runEach locate st xs of
        (Normal u, st1) \<Rightarrow> runEach locate st1 ys
      | other \<Rightarrow> other)"
  by (induction xs arbitrary: st) (auto split: prod.splits completion.splits)

lemma runTest_classified:
  assumes "classified t"
  shows "runTest locate st t =
           (Normal (),
            st\<lparr> failureCount := failureCount st + (if failing t then 1 else 0),
                 testState := (testState st)\<lparr> lastPassedHashes :=
                    (lastPassedHashes (testState st))(propKey (testFile t) \<mapsto> fileHash t) \<rparr>,
                 failuresInFile := (if failing t
                                    then List.insert (propKey (testFile t)) (failuresInFile st)
                                    else failuresInFile st),
                 stderr := stderr st @ testOutput locate t \<rparr>)"
  using assms
  by (auto simp: runTest_def classified_def failing_def testOutput_def Let_def
      split: option.splits exn.splits)

lemma runTest_unclassified:
  assumes "func t = Some e" and "\<not> isTestFailure e"
  shows "runTest locate st t =
           (Raise e,
            st\<lparr> testState := (testState st)\<lparr> lastPassedHashes :=
                    (lastPassedHashes (testState st))(propKey (testFile t) \<mapsto> fileHash t) \<rparr>,
                 stderr := stderr st @ testOutput locate t \<rparr>)"
  using assms
  by (auto simp: runTest_def testOutput_def Let_def split: option.splits exn.splits)

lemma runEach_classified:
  assumes "\<forall>x \<in> set ts. classified x"
  shows "\<exists>st'. runEach locate st ts = (Normal (), st') \<and>
           failureCount st' = failureCount st + length (filter failing ts) \<and>
           stderr st' = stderr st @ concat (map (testOutput locate) ts) \<and>
           set (failuresInFile st') =
             set (failuresInFile st) \<union> (\<lambda>x. propKey (testFile x)) ` {x \<in> set ts. failing x}"
  using assms
proof (induction ts arbitrary: st)
  case Nil
  show ?case by simp
next
  case (Cons t ts)
  from Cons.prems have c: "classified t" and rest: "\<forall>x \<in> set ts. classified x" by simp_all
  obtain st1 where step: "runTest locate st t = (Normal (), st1)"
    and cnt1: "failureCount st1 = failureCount st + (if failing t then 1 else 0)"
    and err1: "stderr st1 = stderr st @ testOutput locate t"
    and fls1: "failuresInFile st1 =
                 (if failing t then List.insert (propKey (testFile t)) (failuresInFile st)
                  else failuresInFile st)"
    by (simp add: runTest_classified [OF c])
  from Cons.IH [OF rest, of st1] obtain st' where
    run: "runEach locate st1 ts = (Normal (), st')" and
    cnt: "failureCount st' = failureCount st1 + length (filter failing ts)" and
    err: "stderr st' = stderr st1 @ concat (map (testOutput locate) ts)" and
    fls: "set (failuresInFile st') =
            set (failuresInFile st1) \<union> (\<lambda>x. propKey (testFile x)) ` {x \<in> set ts. failing x}"
    by blast
  have "runEach locate st (t # ts) = (Normal (), st')"
    using step run by simp
  moreover have "failureCount st' = failureCount st + length (filter failing (t # ts))"
    using cnt cnt1 by simp
  moreover have "stderr st' = stderr st @ concat (map (testOutput locate) (t # ts))"
    using err err1 by simp
  moreover have "set (failuresInFile st') =
             set (failuresInFile st) \<union> (\<lambda>x. propKey (testFile x)) ` {x \<in> set (t # ts). failing x}"
    using fls fls1 by auto
  ultimately show ?case by blast
qed

lemma fold_delete:
  "fold (\<lambda>k m. m(k := None)) ks m k' = (if k' \<in> set ks then None else m k')"
  by (induction ks arbitrary: m) auto

lemma retract_lookup:
  "lastPassedHashes (retract ks ps) k = (if k \<in> set ks then None else lastPassedHashes ps k)"
  by (simp add: retract_def fold_delete)

lemma runTest_Normal_classified:
  assumes "runTest locate st t = (Normal u, st')"
  shows "classified t"
  using assms
  by (auto simp: runTest_def classified_def Let_def split: option.splits exn.splits)

lemma runEach_Normal_classified:
  assumes "runEach locate st ts = (Normal u, st')"
  shows "\<forall>x \<in> set ts. classified x"
  using assms
proof (induction ts arbitrary: st)
  case Nil
  show ?case by simp
next
  case (Cons t ts)
  obtain c st1 where step: "runTest locate st t = (c, st1)" by (cases "runTest locate st t")
  with Cons.prems have "c = Normal ()"
    by (cases c) auto
  with step Cons.prems have "classified t" and "runEach locate st1 ts = (Normal u, st')"
    by (auto dest: runTest_Normal_classified)
  with Cons.IH show ?case by auto
qed

lemma runTests_completes:
  assumes "getAllTests sha1 dir (registry w) = (Normal tests, ld)"
    and "selectTests onlyChanged (fst (readTestState (disk w))) tests = sel" and "sel \<noteq> []"
    and "runEach locate \<lparr> failureCount = 0, testState = fst (readTestState (disk w)),
                          failuresInFile = [], stderr = console w \<rparr> sel = (Normal u, st)"
  shows "runTests sha1 locate dir onlyChanged w =
           (Normal (if failureCount st = 0 then 0 else 1),
            w\<lparr> registry := ld,
                disk := \<lparr> stateFile = Some (retract (failuresInFile st) (testState st)),
                          ops = ops (snd (readTestState (disk w))) @ [WriteFileSync] \<rparr>,
                console := stderr st @ [summary (failureCount st)] \<rparr>)"
proof -
  from assms(2,3) have "tests \<noteq> []" by (auto simp: selectTests_def split: if_splits)
  with assms show ?thesis
    by (cases "readTestState (disk w)") (simp add: runTests_def Let_def)
qed

lemma runTests_raises:
  assumes "getAllTests sha1 dir (registry w) = (Normal tests, ld)"
    and "selectTests onlyChanged (fst (readTestState (disk w))) tests = sel" and "sel \<noteq> []"
    and "runEach locate \<lparr> failureCount = 0, testState = fst (readTestState (disk w)),
                          failuresInFile = [], stderr = console w \<rparr> sel = (Raise e, st)"
  shows "runTests sha1 locate dir onlyChanged w =
           (Raise e, w\<lparr> registry := ld, disk := snd (readTestState (disk w)),
                         console := stderr st \<rparr>)"
proof -
  from assms(2,3) have "tests \<noteq> []" by (auto simp: selectTests_def split: if_splits)
  with assms show ?thesis
    by (cases "readTestState (disk w)") (simp add: runTests_def Let_def)
qed

lemma runEach_not_Suspended: "fst (runEach locate st ts) \<noteq> Suspended f' tm"
proof (induction ts arbitrary: st)
  case Nil
  show ?case by simp
next
  case (Cons t ts)
  have "fst (runTest locate st t) \<noteq> Suspended f' tm"
    by (auto simp: runTest_def Let_def split: option.splits exn.splits)
  with Cons.IH show ?case
    by (auto split: prod.splits completion.splits)
qed

text \<open>
  C4. A run that completes and that executed two tests of one file, one that passed and
  one that raised a \<^verbatim>\<open>TestFailure\<close>, leaves a state file with no \<^verbatim>\<open>lastPassedHashes\<close> entry
  for that file. Whatever tests a later \<^verbatim>\<open>onlyChanged\<close> run discovers, it reads that state
  and selects every test of that file for execution.
\<close>

theorem failure_retracts_pass_hash:
  assumes "getAllTests sha1 dir (registry w) = (Normal tests, ld)"
    and "runTests sha1 locate dir onlyChanged w = (Normal rc, w')"
    and "t1 \<in> set (selectTests onlyChanged (fst (readTestState (disk w))) tests)"
    and "t2 \<in> set (selectTests onlyChanged (fst (readTestState (disk w))) tests)"
    and "propKey (testFile t2) = propKey (testFile t1)"
    and "func t1 = None" and "func t2 = Some (TestFailure fl)"
  shows "(\<exists>ps. stateFile (disk w') = Some ps \<and>
               lastPassedHashes ps (propKey (testFile t1)) = None) \<and>
         (\<forall>tests2. \<forall>t \<in> set tests2. propKey (testFile t) = propKey (testFile t1) \<longrightarrow>
               t \<in> set (selectTests True (fst (readTestState (disk w'))) tests2))"
proof -
  let ?sel = "selectTests onlyChanged (fst (readTestState (disk w))) tests"
  let ?st0 = "\<lparr> failureCount = 0, testState = fst (readTestState (disk w)),
               failuresInFile = [], stderr = console w \<rparr>"
  from assms(3) have sel: "?sel \<noteq> []" by auto
  obtain c st where run: "runEach locate ?st0 ?sel = (c, st)"
    by (cases "runEach locate ?st0 ?sel")
  have "c = Normal ()"
  proof (cases c)
    case (Normal u)
    then show ?thesis by simp
  next
    case (Raise e)
    with run runTests_raises [OF assms(1) refl sel, of locate e st] assms(2)
    show ?thesis by simp
  next
    case (Suspended f' tm)
    with run runEach_not_Suspended [of locate ?st0 ?sel f' tm] show ?thesis by simp
  qed
  with run have run': "runEach locate ?st0 ?sel = (Normal (), st)" by simp
  let ?ps = "retract (failuresInFile st) (testState st)"
  have "runTests sha1 locate dir onlyChanged w =
           (Normal (if failureCount st = 0 then 0 else 1),
            w\<lparr> registry := ld,
                disk := \<lparr> stateFile = Some ?ps,
                          ops = ops (snd (readTestState (disk w))) @ [WriteFileSync] \<rparr>,
                console := stderr st @ [summary (failureCount st)] \<rparr>)"
    by (rule runTests_completes [OF assms(1) refl sel run'])
  with assms(2) have "w' = w\<lparr> registry := ld,
                disk := \<lparr> stateFile = Some ?ps,
                          ops = ops (snd (readTestState (disk w))) @ [WriteFileSync] \<rparr>,
                console := stderr st @ [summary (failureCount st)] \<rparr>"
    by simp
  then have persisted: "stateFile (disk w') = Some ?ps" by simp
  have "\<forall>x \<in> set ?sel. classified x"
    by (rule runEach_Normal_classified [OF run'])
  from runEach_classified [OF this, of locate ?st0] run'
  have fails: "set (failuresInFile st) =
                 (\<lambda>x. propKey (testFile x)) ` {x \<in> set ?sel. failing x}"
    by simp
  from assms(7) have "failing t2" by (simp add: failing_def)
  with assms(4) have "propKey (testFile t2) \<in> (\<lambda>x. propKey (testFile x)) ` {x \<in> set ?sel. failing x}"
    by blast
  with fails assms(5) have "propKey (testFile t1) \<in> set (failuresInFile st)"
    by simp
  then have gone: "lastPassedHashes ?ps (propKey (testFile t1)) = None"
    by (simp add: retract_lookup)
  have "lastPassedHashes (fst (readTestState (disk w'))) (propKey (testFile t1)) = None"
    using persisted gone by (simp add: readTestState_def freshState_def)
  then have "\<forall>tests2. \<forall>t \<in> set tests2. propKey (testFile t) = propKey (testFile t1) \<longrightarrow>
               t \<in> set (selectTests True (fst (readTestState (disk w'))) tests2)"
    by (simp add: selectTests_def changed_def)
  with persisted gone show ?thesis by blast
qed

theorem failure_retracts_pass_hash_witness:
  "fst (runTests (\<lambda>c. c) (\<lambda>fl. ''login.js:7'') [loginFile] False exampleWorld) = Normal 1 \<and>
   (\<exists>ps. stateFile (disk (snd (runTests (\<lambda>c. c) (\<lambda>fl. ''login.js:7'') [loginFile] False
                                   exampleWorld))) = Some ps \<and>
         lastPassedHashes ps ''login'' = None) \<and>
   set loginTests \<subseteq>
     set (selectTests True
            (fst (readTestState (disk (snd (runTests (\<lambda>c. c) (\<lambda>fl. ''login.js:7'') [loginFile]
                                               False exampleWorld)))))
            loginTests)"
proof -
  let ?run = "runTests (\<lambda>c. c) (\<lambda>fl. ''login.js:7'') [loginFile] False exampleWorld"
  let ?t1 = "\<lparr> name = ''logs in'', testFile = Some ''login'', fileHash = Some ''v1'',
               func = None \<rparr>"
  let ?t2 = "\<lparr> name = ''logs out'', testFile = Some ''login'', fileHash = Some ''v1'',
               func = Some (TestFailure JunkAtEnd) \<rparr>"
  have "\<forall>x \<in> set loginTests. classified x"
    by (simp add: loginTests_def classified_def)
  from runEach_classified [OF this, of "\<lambda>fl. ''login.js:7''"
      "\<lparr> failureCount = 0, testState = fst (readTestState (disk exampleWorld)),
         failuresInFile = [], stderr = console exampleWorld \<rparr>"]
  obtain st where
    run: "runEach (\<lambda>fl. ''login.js:7'')
       \<lparr> failureCount = 0, testState = fst (readTestState (disk exampleWorld)),
         failuresInFile = [], stderr = console exampleWorld \<rparr> loginTests = (Normal (), st)"
    and cnt: "failureCount st = length (filter failing loginTests)"
    by auto
  have ne: "loginTests \<noteq> []" by (simp add: loginTests_def)
  have "fst ?run = Normal (if failureCount st = 0 then 0 else 1)"
    by (simp add: runTests_completes [OF discover_login select_all_example ne run])
  with cnt have one: "fst ?run = Normal 1"
    by (simp add: loginTests_def failing_def)
  then have completed: "?run = (Normal 1, snd ?run)"
    by (metis prod.collapse)
  have mem: "?t1 \<in> set (selectTests False (fst (readTestState (disk exampleWorld))) loginTests)"
    "?t2 \<in> set (selectTests False (fst (readTestState (disk exampleWorld))) loginTests)"
    by (simp_all add: select_all_example loginTests_def)
  have "propKey (testFile ?t2) = propKey (testFile ?t1)" and "func ?t1 = None"
    and "func ?t2 = Some (TestFailure JunkAtEnd)" and key: "propKey (testFile ?t1) = ''login''"
    by (simp_all add: propKey_def)
  from failure_retracts_pass_hash [OF discover_login completed mem this(1-3)] key
  have "\<exists>ps. stateFile (disk (snd ?run)) = Some ps \<and> lastPassedHashes ps ''login'' = None"
    and "\<forall>t \<in> set loginTests. propKey (testFile t) = ''login'' \<longrightarrow>
           t \<in> set (selectTests True (fst (readTestState (disk (snd ?run)))) loginTests)"
    by simp_all
  moreover have "\<forall>t \<in> set loginTests. propKey (testFile t) = ''login''"
    by (simp add: loginTests_def propKey_def)
  ultimately show ?thesis using one by blast
qed

text \<open>
  C5. Take the tests a run executes, and one of them, \<open>t\<close>, such that every test before it
  returns or raises a \<^verbatim>\<open>TestFailure\<close>. If \<open>t\<close> raises a \<^verbatim>\<open>TestFailure\<close> and the tests after
  it are classified too, the run returns 1; stderr shows every test in order, the ones
  after \<open>t\<close> included, with the report of each failure, and the summary counts the
  failures. If \<open>t\<close> raises anything else, the run raises that exception: stderr ends
  with the line of \<open>t\<close>, no later test runs, and the state file is not written.
\<close>

theorem runner_catches_only_failures:
  assumes "getAllTests sha1 dir (registry w) = (Normal tests, ld)"
    and "selectTests onlyChanged (fst (readTestState (disk w))) tests = before @ t # rest"
    and "\<forall>x \<in> set before. classified x"
  shows "(failing t \<and> (\<forall>x \<in> set rest. classified x) \<longrightarrow>
            fst (runTests sha1 locate dir onlyChanged w) = Normal 1 \<and>
            console (snd (runTests sha1 locate dir onlyChanged w)) =
              console w @ concat (map (testOutput locate) (before @ t # rest)) @
              [summary (length (filter failing (before @ t # rest)))]) \<and>
         (\<not> classified t \<longrightarrow>
            (\<exists>e. func t = Some e \<and> \<not> isTestFailure e \<and>
                 fst (runTests sha1 locate dir onlyChanged w) = Raise e) \<and>
            console (snd (runTests sha1 locate dir onlyChanged w)) =
              console w @ concat (map (testOutput locate) (before @ [t])) \<and>
            stateFile (disk (snd (runTests sha1 locate dir onlyChanged w))) =
              stateFile (disk w) \<and>
            WriteFileSync \<notin> set (drop (length (ops (disk w)))
                 (ops (disk (snd (runTests sha1 locate dir onlyChanged w))))))"
proof (intro conjI impI)
  let ?st0 = "\<lparr> failureCount = 0, testState = fst (readTestState (disk w)),
               failuresInFile = [], stderr = console w \<rparr>"
  let ?sel = "before @ t # rest"
  have sel: "?sel \<noteq> []" by simp
  {
    assume a: "failing t \<and> (\<forall>x \<in> set rest. classified x)"
    then have "classified t" by (auto simp: failing_def classified_def split: option.splits exn.splits)
    with a assms(3) have "\<forall>x \<in> set ?sel. classified x" by auto
    from runEach_classified [OF this, of locate ?st0] obtain st where
      run: "runEach locate ?st0 ?sel = (Normal (), st)" and
      cnt: "failureCount st = length (filter failing ?sel)" and
      err: "stderr st = console w @ concat (map (testOutput locate) ?sel)"
      by auto
    from a cnt have pos: "failureCount st \<noteq> 0" by simp
    have res: "runTests sha1 locate dir onlyChanged w =
           (Normal (if failureCount st = 0 then 0 else 1),
            w\<lparr> registry := ld,
                disk := \<lparr> stateFile = Some (retract (failuresInFile st) (testState st)),
                          ops = ops (snd (readTestState (disk w))) @ [WriteFileSync] \<rparr>,
                console := stderr st @ [summary (failureCount st)] \<rparr>)"
      by (rule runTests_completes [OF assms(1,2) sel run])
    from res pos show "fst (runTests sha1 locate dir onlyChanged w) = Normal 1" by simp
    from res cnt err show "console (snd (runTests sha1 locate dir onlyChanged w)) =
              console w @ concat (map (testOutput locate) ?sel) @
              [summary (length (filter failing ?sel))]"
      by simp
  }
  {
    assume u: "\<not> classified t"
    then obtain e where e: "func t = Some e" "\<not> isTestFailure e"
      by (auto simp: classified_def split: option.splits)
    from runEach_classified [OF assms(3), of locate ?st0] obtain st1 where
      pre: "runEach locate ?st0 before = (Normal (), st1)" and
      err1: "stderr st1 = console w @ concat (map (testOutput locate) before)"
      by auto
    obtain st2 where step: "runTest locate st1 t = (Raise e, st2)"
      and err2: "stderr st2 = stderr st1 @ testOutput locate t"
      by (simp add: runTest_unclassified [OF e])
    have run: "runEach locate ?st0 ?sel = (Raise e, st2)"
      using pre step by (simp add: runEach_append)
    have res: "runTests sha1 locate dir onlyChanged w =
           (Raise e, w\<lparr> registry := ld, disk := snd (readTestState (disk w)),
                         console := stderr st2 \<rparr>)"
      by (rule runTests_raises [OF assms(1,2) sel run])
    from res e show "\<exists>e. func t = Some e \<and> \<not> isTestFailure e \<and>
                 fst (runTests sha1 locate dir onlyChanged w) = Raise e"
      by simp
    from res err1 err2 show "console (snd (runTests sha1 locate dir onlyChanged w)) =
              console w @ concat (map (testOutput locate) (before @ [t]))"
      by simp
    from res readTestState_disk [of "disk w"]
    show "stateFile (disk (snd (runTests sha1 locate dir onlyChanged w))) = stateFile (disk w)"
      by simp
    from res readTestState_disk [of "disk w"]
    show "WriteFileSync \<notin> set (drop (length (ops (disk w)))
                 (ops (disk (snd (runTests sha1 locate dir onlyChanged w)))))"
      by auto
  }
qed

theorem runner_catches_only_failures_witness:
  "fst (runTests (\<lambda>c. c) (\<lambda>fl. ''login.js:7'') [loginFile] False exampleWorld) = Normal 1 \<and>
   console (snd (runTests (\<lambda>c. c) (\<lambda>fl. ''login.js:7'') [loginFile] False exampleWorld)) =
     [''logs in... '', ''ok'' @ nl,
      ''logs out... '', ''fail!'' @ nl, ''  => junk-at-end at login.js:7'' @ nl,
      ''shows help... '', ''ok'' @ nl,
      nl @ ''1 failure.'' @ nl] \<and>
   fst (runTests (\<lambda>c. c) (\<lambda>fl. ''deploy.js:3'') [deployFile] False exampleWorld) =
     Raise (Error ''boom'') \<and>
   console (snd (runTests (\<lambda>c. c) (\<lambda>fl. ''deploy.js:3'') [deployFile] False exampleWorld)) =
     [''deploys... '', ''ok'' @ nl, ''crashes... '', ''exception'' @ nl @ nl] \<and>
   stateFile (disk (snd (runTests (\<lambda>c. c) (\<lambda>fl. ''deploy.js:3'') [deployFile] False
                           exampleWorld))) = None"
proof -
  let ?l1 = "\<lparr> name = ''logs in'', testFile = Some ''login'', fileHash = Some ''v1'',
               func = None \<rparr>"
  let ?l2 = "\<lparr> name = ''logs out'', testFile = Some ''login'', fileHash = Some ''v1'',
               func = Some (TestFailure JunkAtEnd) \<rparr>"
  let ?l3 = "\<lparr> name = ''shows help'', testFile = Some ''login'', fileHash = Some ''v1'',
               func = None \<rparr>"
  let ?d1 = "\<lparr> name = ''deploys'', testFile = Some ''deploy'', fileHash = Some ''v7'',
               func = None \<rparr>"
  let ?d2 = "\<lparr> name = ''crashes'', testFile = Some ''deploy'', fileHash = Some ''v7'',
               func = Some (Error ''boom'') \<rparr>"
  let ?d3 = "\<lparr> name = ''never runs'', testFile = Some ''deploy'', fileHash = Some ''v7'',
               func = None \<rparr>"
  have sel1: "selectTests False (fst (readTestState (disk exampleWorld))) loginTests =
                [?l1] @ ?l2 # [?l3]"
    by (simp add: select_all_example loginTests_def)
  have sel2: "selectTests False (fst (readTestState (disk exampleWorld))) deployTests =
                [?d1] @ ?d2 # [?d3]"
    by (simp add: select_all_example deployTests_def)
  have c1: "\<forall>x \<in> set [?l1]. classified x" and c2: "\<forall>x \<in> set [?d1]. classified x"
    by (simp_all add: classified_def)
  have f: "failing ?l2 \<and> (\<forall>x \<in> set [?l3]. classified x)" and u: "\<not> classified ?d2"
    by (simp_all add: failing_def classified_def)
  from runner_catches_only_failures [OF discover_login sel1 c1, of "\<lambda>fl. ''login.js:7''"] f
  have "fst (runTests (\<lambda>c. c) (\<lambda>fl. ''login.js:7'') [loginFile] False exampleWorld) = Normal 1"
    and "console (snd (runTests (\<lambda>c. c) (\<lambda>fl. ''login.js:7'') [loginFile] False exampleWorld)) =
           console exampleWorld @
           concat (map (testOutput (\<lambda>fl. ''login.js:7'')) ([?l1] @ ?l2 # [?l3])) @
           [summary (length (filter failing ([?l1] @ ?l2 # [?l3])))]"
    by blast+
  moreover
  from runner_catches_only_failures [OF discover_deploy sel2 c2, of "\<lambda>fl. ''deploy.js:3''"] u
  have "fst (runTests (\<lambda>c. c) (\<lambda>fl. ''deploy.js:3'') [deployFile] False exampleWorld) =
          Raise (Error ''boom'')"
    and "console (snd (runTests (\<lambda>c. c) (\<lambda>fl. ''deploy.js:3'') [deployFile] False
                         exampleWorld)) =
           console exampleWorld @ concat (map (testOutput (\<lambda>fl. ''deploy.js:3'')) ([?d1] @ [?d2]))"
    and "stateFile (disk (snd (runTests (\<lambda>c. c) (\<lambda>fl. ''deploy.js:3'') [deployFile] False
                                 exampleWorld))) = stateFile (disk exampleWorld)"
    by auto
  ultimately show ?thesis
    by (simp add: exampleWorld_def testOutput_def reportFailure_def failing_def summary_def)
qed

end
